theory Spec2Isabelle
  imports Main "HOL-Library.AList" "HOL-Library.Char_ord" "HOL-Library.List_Lexorder"
begin

section \<open>kctx.py: the context-switching helper\<close>

text \<open>
  The development embeds \<^verbatim>\<open>src/k8s/kctx.py\<close>. A Python \<^verbatim>\<open>str\<close> is a HOL
  \<open>string\<close>, read as a sequence of code points below 256; the string functions of
  Python used by the program (\<^verbatim>\<open>strip\<close>, \<^verbatim>\<open>lower\<close>, \<^verbatim>\<open>repr\<close>) are written out
  for that range. A Python \<^verbatim>\<open>dict\<close> is an association list in insertion order
  (\<open>AList.update\<close> overwrites in place or appends, as item assignment does).
\<close>

subsection \<open>Python string functions\<close>

definition py_isspace :: "char \<Rightarrow> bool" where
  "py_isspace c =
     (let n = (of_char c :: nat)
      in (9 \<le> n \<and> n \<le> 13) \<or> (28 \<le> n \<and> n \<le> 32) \<or> n = 133 \<or> n = 160)"

definition py_strip :: "string \<Rightarrow> string" where
  "py_strip s = rev (dropWhile py_isspace (rev (dropWhile py_isspace s)))"

definition py_lower_char :: "char \<Rightarrow> char" where
  "py_lower_char c =
     (let n = (of_char c :: nat)
      in if (65 \<le> n \<and> n \<le> 90) \<or> (192 \<le> n \<and> n \<le> 222 \<and> n \<noteq> 215)
         then char_of (n + 32) else c)"

definition py_lower :: "string \<Rightarrow> string" where
  "py_lower s = map py_lower_char s"

definition hex_digit :: "nat \<Rightarrow> char" where
  "hex_digit n = (if n < 10 then char_of (48 + n) else char_of (87 + n))"

definition py_isprintable :: "char \<Rightarrow> bool" where
  "py_isprintable c =
     (let n = (of_char c :: nat) in (32 \<le> n \<and> n < 127) \<or> (161 \<le> n \<and> n \<noteq> 173))"

definition repr_char :: "char \<Rightarrow> char \<Rightarrow> string" where
  "repr_char quote c =
     (if c = quote \<or> c = CHR 0x5C then [CHR 0x5C, c]
      else if c = CHR 0x09 then [CHR 0x5C, CHR ''t'']
      else if c = CHR 0x0A then [CHR 0x5C, CHR ''n'']
      else if c = CHR 0x0D then [CHR 0x5C, CHR ''r'']
      else if py_isprintable c then [c]
      else [CHR 0x5C, CHR ''x'', hex_digit (of_char c div 16), hex_digit (of_char c mod 16)])"

text \<open>\<^verbatim>\<open>repr\<close> of a string, the \<^verbatim>\<open>!r\<close> conversion of the f-strings: double quotes
  only when the string holds an apostrophe and no double quote.\<close>

definition py_repr :: "string \<Rightarrow> string" where
  "py_repr s =
     (let quote = (if CHR 0x27 \<in> set s \<and> CHR 0x22 \<notin> set s then CHR 0x22 else CHR 0x27)
      in quote # concat (map (repr_char quote) s) @ [quote])"

fun nat_str :: "nat \<Rightarrow> string" where
  "nat_str n = (if n < 10 then [char_of (48 + n)]
                else nat_str (n div 10) @ [char_of (48 + n mod 10)])"

definition int_str :: "int \<Rightarrow> string" where
  "int_str i = (if i < 0 then CHR ''-'' # nat_str (nat (- i)) else nat_str (nat i))"

fun join :: "string \<Rightarrow> string list \<Rightarrow> string" where
  "join sep [] = []"
| "join sep [x] = x"
| "join sep (x # y # ys) = x @ sep @ join sep (y # ys)"

subsection \<open>Values read from the files\<close>

text \<open>
  What \<^verbatim>\<open>json.loads\<close> returns. An object carries the items of the Python dict in
  insertion order. A float is carried by the text Python prints for it.
\<close>

datatype json =
    JNull
  | JBool bool
  | JInt int
  | JFloat string
  | JStr string
  | JArr "json list"
  | JObj "(string \<times> json) list"

fun json_repr :: "json \<Rightarrow> string" where
  "json_repr JNull = ''None''"
| "json_repr (JBool b) = (if b then ''True'' else ''False'')"
| "json_repr (JInt i) = int_str i"
| "json_repr (JFloat t) = t"
| "json_repr (JStr s) = py_repr s"
| "json_repr (JArr xs) = ''['' @ join '', '' (map json_repr xs) @ '']''"
| "json_repr (JObj kvs) =
     ''{'' @ join '', '' (map (\<lambda>kv. py_repr (fst kv) @ '': '' @ json_repr (snd kv)) kvs) @ ''}''"

text \<open>\<^verbatim>\<open>str(value)\<close>: a string is itself, any other value is printed as its repr.\<close>

definition py_str :: "json \<Rightarrow> string" where
  "py_str v = (case v of JStr s \<Rightarrow> s | _ \<Rightarrow> json_repr v)"

text \<open>What \<^verbatim>\<open>tomllib.loads\<close> returns inside a table: a string, a table, or a value of
  another type (number, boolean, date, array), which the program only ever skips.\<close>

datatype toml =
    TString string
  | TTable "(string \<times> toml) list"
  | TOther

subsection \<open>The files\<close>

text \<open>
  The text of a file is modelled by what its parser makes of it: \<open>Junk\<close> is a text the
  parser rejects (for JSON this includes the empty text), \<open>Denotes d\<close> a text that parses
  to \<open>d\<close>. A file is absent, present but unreadable (\<^verbatim>\<open>read_text\<close> raises: permissions,
  undecodable bytes), or holds a text. \<open>Inaccessible\<close> is a path that cannot be examined:
  \<^verbatim>\<open>stat\<close> fails on it with an error other than the four that \<^verbatim>\<open>Path.exists\<close> takes
  for absence (ENOENT, ENOTDIR, EBADF, ELOOP), for example EACCES below a directory
  without search permission; \<^verbatim>\<open>Path.exists\<close> raises that error again.
\<close>

datatype 'd contents = Junk | Denotes 'd

datatype 'd filenode = Absent | Inaccessible | Unreadable | Holds "'d contents"

text \<open>The exceptions of the library calls of the two loaders (\<^verbatim>\<open>PermissionError\<close> is an
  \<^verbatim>\<open>OSError\<close>), and the one exception the adapter raises itself.\<close>

datatype exn = OSError | DecodeError

datatype runtime_error = RuntimeError string

text \<open>\<^verbatim>\<open>KctxPaths\<close>: the base directory with its two files. \<open>base_dir = None\<close> is a
  missing directory. \<open>writes\<close> counts the completed \<^verbatim>\<open>write_text\<close> calls on the state
  file, so that "no write occurs" can be said.\<close>

record kdir =
  state_file :: "json filenode"
  config_file :: "(string \<times> toml) list filenode"

record fsys =
  base_dir :: "kdir option"
  writes :: nat

type_synonym state = "(string \<times> string) list"

definition the_state_file :: "fsys \<Rightarrow> json filenode" where
  "the_state_file fs = (case base_dir fs of None \<Rightarrow> Absent | Some d \<Rightarrow> state_file d)"

definition the_config_file :: "fsys \<Rightarrow> (string \<times> toml) list filenode" where
  "the_config_file fs = (case base_dir fs of None \<Rightarrow> Absent | Some d \<Rightarrow> config_file d)"

text \<open>\<^verbatim>\<open>Path.exists\<close>\<close>

definition file_exists :: "'d filenode \<Rightarrow> exn + bool" where
  "file_exists f =
     (case f of
        Absent \<Rightarrow> Inr False
      | Inaccessible \<Rightarrow> Inl OSError
      | Unreadable \<Rightarrow> Inr True
      | Holds t \<Rightarrow> Inr True)"

definition read_text :: "'d filenode \<Rightarrow> exn + 'd contents" where
  "read_text f =
     (case f of
        Absent \<Rightarrow> Inl OSError
      | Inaccessible \<Rightarrow> Inl OSError
      | Unreadable \<Rightarrow> Inl OSError
      | Holds t \<Rightarrow> Inr t)"

definition loads :: "'d contents \<Rightarrow> exn + 'd" where
  "loads t = (case t of Junk \<Rightarrow> Inl DecodeError | Denotes d \<Rightarrow> Inr d)"

text \<open>Building a dict from items one after the other: a later item with the same key
  overwrites the value and keeps the position.\<close>

definition py_dict :: "('k \<times> 'v) list \<Rightarrow> ('k \<times> 'v) list" where
  "py_dict items = foldl (\<lambda>d kv. AList.update (fst kv) (snd kv) d) [] items"

subsection \<open>State store\<close>

text \<open>An exception that nothing catches is a value \<open>Inl e\<close>. The body of the \<^verbatim>\<open>try\<close>
  block of \<^verbatim>\<open>load_state\<close> comes first; the call of \<^verbatim>\<open>exists\<close> stands before that
  block, so what it raises leaves \<^verbatim>\<open>load_state\<close>.\<close>

definition load_state_try :: "fsys \<Rightarrow> exn + state" where
  "load_state_try fs =
     (case read_text (the_state_file fs) of
        Inl e \<Rightarrow> Inl e
      | Inr raw_text \<Rightarrow>
          (case loads raw_text of
             Inl e \<Rightarrow> Inl e
           | Inr st \<Rightarrow>
               (case st of
                  JObj items \<Rightarrow> Inr (py_dict (map (\<lambda>kv. (fst kv, py_str (snd kv))) items))
                | _ \<Rightarrow> Inr [])))"

definition load_state :: "fsys \<Rightarrow> exn + state" where
  "load_state fs =
     (case file_exists (the_state_file fs) of
        Inl e \<Rightarrow> Inl e
      | Inr found \<Rightarrow>
          if \<not> found then Inr []
          else (case load_state_try fs of
                  Inl e \<Rightarrow> Inr []
                | Inr state_strings \<Rightarrow> Inr state_strings))"

definition ensure_base_dir :: "fsys \<Rightarrow> fsys" where
  "ensure_base_dir fs =
     (case base_dir fs of
        None \<Rightarrow> fs\<lparr>base_dir := Some \<lparr>state_file = Absent, config_file = Absent\<rparr>\<rparr>
      | Some d \<Rightarrow> fs)"

text \<open>\<^verbatim>\<open>json.dumps(state, indent=2, sort_keys=True)\<close>: the text of the object whose
  members are the items of the dict, sorted by key, each value a JSON string.\<close>

definition json_dumps :: "state \<Rightarrow> json contents" where
  "json_dumps st = Denotes (JObj (map (\<lambda>kv. (fst kv, JStr (snd kv))) (sort_key fst st)))"

text \<open>\<^verbatim>\<open>Path.write_text\<close> opens the file for writing, which truncates it, then writes
  the text and closes the file.\<close>

definition open_truncate :: "fsys \<Rightarrow> fsys" where
  "open_truncate fs =
     (case base_dir fs of
        None \<Rightarrow> fs
      | Some d \<Rightarrow> fs\<lparr>base_dir := Some (d\<lparr>state_file := Holds Junk\<rparr>)\<rparr>)"

definition write_close :: "json contents \<Rightarrow> fsys \<Rightarrow> fsys" where
  "write_close t fs =
     (case base_dir fs of
        None \<Rightarrow> fs
      | Some d \<Rightarrow> fs\<lparr>base_dir := Some (d\<lparr>state_file := Holds t\<rparr>), writes := Suc (writes fs)\<rparr>)"

text \<open>The file systems a reader can see while \<^verbatim>\<open>save_state\<close> runs, in order: after
  \<^verbatim>\<open>mkdir\<close>, after the file is opened, after the text is written.\<close>

definition save_state_steps :: "fsys \<Rightarrow> state \<Rightarrow> fsys list" where
  "save_state_steps fs st =
     (let fs1 = ensure_base_dir fs;
          txt = json_dumps st;
          fs2 = open_truncate fs1;
          fs3 = write_close txt fs2
      in [fs1, fs2, fs3])"

definition save_state :: "fsys \<Rightarrow> state \<Rightarrow> fsys" where
  "save_state fs st = last (save_state_steps fs st)"

definition record_last_context :: "fsys \<Rightarrow> string option \<Rightarrow> exn + fsys" where
  "record_last_context fs current =
     (case current of
        None \<Rightarrow> Inr fs
      | Some c \<Rightarrow>
          (case load_state fs of
             Inl e \<Rightarrow> Inl e
           | Inr st \<Rightarrow>
               (let new_state = AList.update ''last_context'' c st
                in Inr (save_state fs new_state))))"

definition get_last_context :: "fsys \<Rightarrow> exn + string option" where
  "get_last_context fs =
     (case load_state fs of
        Inl e \<Rightarrow> Inl e
      | Inr st \<Rightarrow> Inr (map_of st ''last_context''))"

subsection \<open>Config loader\<close>

text \<open>The items of a table are those of a dict: their keys are distinct, so \<open>map_of\<close> is
  \<^verbatim>\<open>dict.get\<close>.\<close>

type_synonym labels = "(string \<times> string) list"

definition load_labels_try :: "fsys \<Rightarrow> exn + (string \<times> toml) list" where
  "load_labels_try fs =
     (case read_text (the_config_file fs) of
        Inl e \<Rightarrow> Inl e
      | Inr raw \<Rightarrow> loads raw)"

text \<open>One round of the loop over \<^verbatim>\<open>contexts_table.items()\<close>.\<close>

definition label_entry :: "labels \<Rightarrow> string \<times> toml \<Rightarrow> labels" where
  "label_entry labels kv =
     (case snd kv of
        TTable cfg \<Rightarrow>
          (case map_of cfg ''env'' of
             Some (TString env) \<Rightarrow> AList.update (fst kv) env labels
           | _ \<Rightarrow> labels)
      | _ \<Rightarrow> labels)"

definition load_labels :: "bool \<Rightarrow> fsys \<Rightarrow> exn + labels" where
  "load_labels tomllib fs =
     (if \<not> tomllib then Inr []
      else (case file_exists (the_config_file fs) of
              Inl e \<Rightarrow> Inl e
            | Inr found \<Rightarrow>
                if \<not> found then Inr []
                else (case load_labels_try fs of
                        Inl e \<Rightarrow> Inr []
                      | Inr data \<Rightarrow>
                          (case map_of data ''contexts'' of
                             Some (TTable contexts_table) \<Rightarrow>
                               Inr (foldl label_entry [] contexts_table)
                           | _ \<Rightarrow> Inr []))))"

subsection \<open>Presentation\<close>

definition ANSI_RESET :: string where "ANSI_RESET = CHR 0x1B # ''[0m''"
definition ANSI_RED :: string where "ANSI_RED = CHR 0x1B # ''[31m''"
definition ANSI_GREEN :: string where "ANSI_GREEN = CHR 0x1B # ''[32m''"
definition ANSI_YELLOW :: string where "ANSI_YELLOW = CHR 0x1B # ''[33m''"
definition ANSI_CYAN :: string where "ANSI_CYAN = CHR 0x1B # ''[36m''"

definition format_env_label :: "string \<Rightarrow> bool \<Rightarrow> string" where
  "format_env_label env use_color =
     (let label = ''['' @ env @ '']''
      in if \<not> use_color then label
         else (let env_lower = py_lower env;
                   color = (if env_lower = ''prod'' then ANSI_RED
                            else if env_lower = ''dev'' \<or> env_lower = ''development'' then ANSI_GREEN
                            else if env_lower = ''stage'' \<or> env_lower = ''staging'' then ANSI_YELLOW
                            else ANSI_CYAN)
               in color @ label @ ANSI_RESET))"

subsection \<open>External tool adapter\<close>

text \<open>
  \<^verbatim>\<open>subprocess.run\<close> is a parameter: the external tool takes the argument list and its
  own state \<open>'k\<close>, and returns the completed process and its new state. The world of one
  command holds that state, the log of the argument lists the tool was run with, the
  file system, the lines printed on the two streams, and what the process finds in its
  environment (whether each stream is a terminal, whether a TOML parser was imported).
  Writing the files and starting the tool are taken to succeed. A command returns its
  outcome with the world it leaves: \<open>Inr\<close> the exit status it returns, \<open>Inl\<close> an
  exception that no handler of the program catches.
\<close>

record completed =
  returncode :: int
  stdout :: string
  stderr :: string

type_synonym 'k tool = "string list \<Rightarrow> 'k \<Rightarrow> completed \<times> 'k"

record 'k world =
  kube :: 'k
  calls :: "string list list"
  disk :: fsys
  printed_out :: "string list"
  printed_err :: "string list"
  stdout_isatty :: bool
  stderr_isatty :: bool
  has_tomllib :: bool

definition print_out :: "string \<Rightarrow> 'k world \<Rightarrow> 'k world" where
  "print_out s w = w\<lparr>printed_out := printed_out w @ [s]\<rparr>"

definition print_err :: "string \<Rightarrow> 'k world \<Rightarrow> 'k world" where
  "print_err s w = w\<lparr>printed_err := printed_err w @ [s]\<rparr>"

definition run_kubectl :: "'k tool \<Rightarrow> string list \<Rightarrow> 'k world \<Rightarrow> completed \<times> 'k world" where
  "run_kubectl tool args w =
     (let full_args = ''kubectl'' # args;
          r = tool full_args (kube w)
      in (fst r, w\<lparr>kube := snd r, calls := calls w @ [full_args]\<rparr>))"

definition get_current_context :: "'k tool \<Rightarrow> 'k world \<Rightarrow> string option \<times> 'k world" where
  "get_current_context tool w =
     (let r = run_kubectl tool [''config'', ''current-context''] w;
          completed = fst r
      in if returncode completed \<noteq> 0 then (None, snd r)
         else (let context_name = py_strip (stdout completed)
               in if context_name = [] then (None, snd r) else (Some context_name, snd r)))"

text \<open>\<^verbatim>\<open>completed.stderr.strip() or "kubectl failed"\<close>\<close>

definition error_message :: "completed \<Rightarrow> string" where
  "error_message completed =
     (let s = py_strip (stderr completed) in if s = [] then ''kubectl failed'' else s)"

definition use_context :: "'k tool \<Rightarrow> string \<Rightarrow> 'k world \<Rightarrow> (runtime_error + unit) \<times> 'k world" where
  "use_context tool name w =
     (let r = run_kubectl tool [''config'', ''use-context'', name] w;
          completed = fst r
      in if returncode completed \<noteq> 0
         then (Inl (RuntimeError (''Failed to switch context to '' @ py_repr name @ '': ''
                                    @ error_message completed)), snd r)
         else (Inr (), snd r))"

text \<open>The arrow of the rename message, U+2192, is beyond the characters of a HOL string;
  it stands here as the three bytes of its UTF-8 encoding.\<close>

definition RIGHT_ARROW :: string where
  "RIGHT_ARROW = [CHR 0xE2, CHR 0x86, CHR 0x92]"

definition rename_context :: "'k tool \<Rightarrow> string \<Rightarrow> string \<Rightarrow> 'k world \<Rightarrow> (runtime_error + unit) \<times> 'k world" where
  "rename_context tool old new w =
     (let r = run_kubectl tool [''config'', ''rename-context'', old, new] w;
          completed = fst r
      in if returncode completed \<noteq> 0
         then (Inl (RuntimeError (''Failed to rename context '' @ py_repr old @ '' '' @ RIGHT_ARROW
                                    @ '' '' @ py_repr new @ '': '' @ error_message completed)), snd r)
         else (Inr (), snd r))"

definition delete_context :: "'k tool \<Rightarrow> string \<Rightarrow> 'k world \<Rightarrow> (runtime_error + unit) \<times> 'k world" where
  "delete_context tool name w =
     (let r = run_kubectl tool [''config'', ''delete-context'', name] w;
          completed = fst r
      in if returncode completed \<noteq> 0
         then (Inl (RuntimeError (''Failed to delete context '' @ py_repr name @ '': ''
                                    @ error_message completed)), snd r)
         else (Inr (), snd r))"

text \<open>\<^verbatim>\<open>str(error)\<close>\<close>

fun str_error :: "runtime_error \<Rightarrow> string" where
  "str_error (RuntimeError msg) = msg"

subsection \<open>Context manager\<close>

definition warn_if_prod :: "string \<Rightarrow> 'k world \<Rightarrow> (exn + unit) \<times> 'k world" where
  "warn_if_prod context w =
     (case load_labels (has_tomllib w) (disk w) of
        Inl e \<Rightarrow> (Inl e, w)
      | Inr labels \<Rightarrow>
          (case map_of labels context of
             None \<Rightarrow> (Inr (), w)
           | Some env \<Rightarrow>
               if py_lower env = ''prod''
               then (let use_color = stderr_isatty w;
                         env_label = format_env_label env use_color
                     in (Inr (), print_err (''WARNING: context '' @ py_repr context
                                              @ '' is labeled '' @ env_label) w))
               else (Inr (), w)))"

text \<open>The end of both branches of \<^verbatim>\<open>switch_context_command\<close> (lines 295 to 306 and
  319 to 330 are the same text): ask the tool again, print, warn, return 0.\<close>

definition show_new_current :: "'k tool \<Rightarrow> 'k world \<Rightarrow> (exn + int) \<times> 'k world" where
  "show_new_current tool w =
     (let r = get_current_context tool w;
          w1 = snd r
      in case fst r of
           None \<Rightarrow> (Inr 0, w1)
         | Some new_current \<Rightarrow>
             (let use_color = stdout_isatty w1
              in case load_labels (has_tomllib w1) (disk w1) of
                   Inl e \<Rightarrow> (Inl e, w1)
                 | Inr labels \<Rightarrow>
                     (let w2 = (case map_of labels new_current of
                                  Some env \<Rightarrow>
                                    print_out (format_env_label env use_color @ '' '' @ new_current) w1
                                | None \<Rightarrow> print_out new_current w1)
                      in case warn_if_prod new_current w2 of
                           (Inl e, w3) \<Rightarrow> (Inl e, w3)
                         | (Inr u, w3) \<Rightarrow> (Inr 0, w3))))"

text \<open>\<^verbatim>\<open>if current is not None: record_last_context(paths, current)\<close>, then the end
  shared by both branches.\<close>

definition record_and_show :: "'k tool \<Rightarrow> string option \<Rightarrow> 'k world \<Rightarrow> (exn + int) \<times> 'k world" where
  "record_and_show tool current w2 =
     (if current \<noteq> None
      then (case record_last_context (disk w2) current of
              Inl e \<Rightarrow> (Inl e, w2)
            | Inr fs \<Rightarrow> show_new_current tool (w2\<lparr>disk := fs\<rparr>))
      else show_new_current tool w2)"

definition switch_context_command :: "'k tool \<Rightarrow> string \<Rightarrow> 'k world \<Rightarrow> (exn + int) \<times> 'k world" where
  "switch_context_command tool target w =
     (if target = ''-''
      then (let r = get_current_context tool w;
                current = fst r;
                w1 = snd r
            in case get_last_context (disk w1) of
                 Inl e \<Rightarrow> (Inl e, w1)
               | Inr last_context \<Rightarrow>
                   (case last_context of
                      None \<Rightarrow> (Inr 1, print_err ''No last context recorded yet.'' w1)
                    | Some l \<Rightarrow>
                        (case use_context tool l w1 of
                           (Inl error, w2) \<Rightarrow> (Inr 1, print_err (str_error error) w2)
                         | (Inr u, w2) \<Rightarrow> record_and_show tool current w2)))
      else (let r = get_current_context tool w;
                current_before = fst r;
                w1 = snd r
            in case use_context tool target w1 of
                 (Inl error, w2) \<Rightarrow> (Inr 1, print_err (str_error error) w2)
               | (Inr u, w2) \<Rightarrow> record_and_show tool current_before w2))"

definition rename_context_command ::
  "'k tool \<Rightarrow> string \<Rightarrow> string \<Rightarrow> 'k world \<Rightarrow> (exn + int) \<times> 'k world" where
  "rename_context_command tool old new w =
     (case rename_context tool old new w of
        (Inl error, w1) \<Rightarrow> (Inr 1, print_err (str_error error) w1)
      | (Inr u, w1) \<Rightarrow>
          (case load_state (disk w1) of
             Inl e \<Rightarrow> (Inl e, w1)
           | Inr st \<Rightarrow>
               (let last = map_of st ''last_context''
                in if last = Some old
                   then (let new_state = AList.update ''last_context'' new st
                         in (Inr 0, w1\<lparr>disk := save_state (disk w1) new_state\<rparr>))
                   else (Inr 0, w1))))"

definition delete_context_command :: "'k tool \<Rightarrow> string \<Rightarrow> 'k world \<Rightarrow> (exn + int) \<times> 'k world" where
  "delete_context_command tool name w =
     (case load_state (disk w) of
        Inl e \<Rightarrow> (Inl e, w)
      | Inr st \<Rightarrow>
          (let last = map_of st ''last_context''
           in case delete_context tool name w of
                (Inl error, w1) \<Rightarrow> (Inr 1, print_err (str_error error) w1)
              | (Inr u, w1) \<Rightarrow>
                  if last = Some name
                  then (let new_state = AList.delete ''last_context'' st
                        in (Inr 0, w1\<lparr>disk := save_state (disk w1) new_state\<rparr>))
                  else (Inr 0, w1)))"

subsection \<open>A stand-in for the external tool\<close>

text \<open>
  A small simulation of the tool's \<^verbatim>\<open>config\<close> subcommands, used to run the commands on
  concrete inputs: the list of context names and the current one. The theorems about
  the program hold for every tool, not only for this one.
\<close>

record sim =
  sim_contexts :: "string list"
  sim_current :: "string option"

definition sim_fail :: "string \<Rightarrow> sim \<Rightarrow> completed \<times> sim" where
  "sim_fail msg k = (\<lparr>returncode = 1, stdout = [], stderr = msg @ [CHR 0x0A]\<rparr>, k)"

definition sim_ok :: "string \<Rightarrow> sim \<Rightarrow> completed \<times> sim" where
  "sim_ok msg k = (\<lparr>returncode = 0, stdout = msg @ [CHR 0x0A], stderr = []\<rparr>, k)"

fun sim_kubectl :: "sim tool" where
  "sim_kubectl [kubectl, config, cmd] k =
     (if cmd = ''current-context''
      then (case sim_current k of
              None \<Rightarrow> sim_fail ''error: current-context is not set'' k
            | Some c \<Rightarrow> sim_ok c k)
      else sim_fail ''error: unknown command'' k)"
| "sim_kubectl [kubectl, config, cmd, name] k =
     (if cmd = ''use-context''
      then (if name \<in> set (sim_contexts k)
            then sim_ok (''Switched to context '' @ name) (k\<lparr>sim_current := Some name\<rparr>)
            else sim_fail (''error: no context exists with the name: '' @ name) k)
      else if cmd = ''delete-context''
      then (if name \<in> set (sim_contexts k)
            then sim_ok (''deleted context '' @ name)
                   (k\<lparr>sim_contexts := removeAll name (sim_contexts k)\<rparr>)
            else sim_fail (''error: cannot delete context '' @ name) k)
      else sim_fail ''error: unknown command'' k)"
| "sim_kubectl [kubectl, config, cmd, old, new] k =
     (if cmd = ''rename-context'' \<and> old \<in> set (sim_contexts k) \<and> new \<notin> set (sim_contexts k)
      then sim_ok (''Context renamed'')
             (k\<lparr>sim_contexts := map (\<lambda>c. if c = old then new else c) (sim_contexts k),
                sim_current := (if sim_current k = Some old then Some new else sim_current k)\<rparr>)
      else sim_fail (''error: cannot rename the context '' @ old) k)"
| "sim_kubectl args k = sim_fail ''error: unknown command'' k"

definition sim_world :: "sim \<Rightarrow> fsys \<Rightarrow> sim world" where
  "sim_world k fs =
     \<lparr>kube = k, calls = [], disk = fs, printed_out = [], printed_err = [],
      stdout_isatty = False, stderr_isatty = False, has_tomllib = True\<rparr>"

definition disk_of :: "json filenode \<Rightarrow> (string \<times> toml) list filenode \<Rightarrow> fsys" where
  "disk_of sf cf = \<lparr>base_dir = Some \<lparr>state_file = sf, config_file = cf\<rparr>, writes = 0\<rparr>"

text \<open>A world to run the commands in: three contexts with \<open>a\<close> current, a state file
  with \<^verbatim>\<open>last_context\<close> and one more key, and labels for two of the contexts.\<close>

definition example_tool_state :: sim where
  "example_tool_state = \<lparr>sim_contexts = [''a'', ''b'', ''prod-cluster''], sim_current = Some ''a''\<rparr>"

definition example_disk :: "string \<Rightarrow> fsys" where
  "example_disk l =
     disk_of (Holds (Denotes (JObj [(''theme'', JStr ''dark''), (''last_context'', JStr l)])))
       (Holds (Denotes [(''contexts'',
          TTable [(''prod-cluster'', TTable [(''env'', TString ''Prod'')]),
                  (''a'', TTable [(''env'', TString ''dev'')])])]))"

definition example_world :: "string \<Rightarrow> sim world" where
  "example_world l = sim_world example_tool_state (example_disk l)"


subsection \<open>Notions used to state the properties\<close>

text \<open>What loading the state gives for one key.\<close>

definition state_binding :: "fsys \<Rightarrow> string \<Rightarrow> exn + string option" where
  "state_binding fs k = (case load_state fs of Inl e \<Rightarrow> Inl e | Inr st \<Rightarrow> Inr (map_of st k))"





text \<open>A reader of the state file never sees a half-written file during \<^verbatim>\<open>save_state\<close>:
  in every file system a reader can see, the state file is as it was before or holds
  the whole new text.\<close>

definition reader_sees_whole_file :: "fsys \<Rightarrow> state \<Rightarrow> bool" where
  "reader_sees_whole_file fs st =
     list_all (\<lambda>fs'. the_state_file fs' = the_state_file fs \<or>
                      the_state_file fs' = Holds (json_dumps st))
       (save_state_steps fs st)"


section \<open>Properties of the state store\<close>

lemma update_fresh: "k \<notin> fst ` set al \<Longrightarrow> AList.update k v al = al @ [(k, v)]"
  by (induction al) auto

lemma foldl_update_distinct:
  "distinct (map fst xs) \<Longrightarrow> fst ` set acc \<inter> fst ` set xs = {} \<Longrightarrow>
   foldl (\<lambda>d kv. AList.update (fst kv) (snd kv) d) acc xs = acc @ xs"
proof (induction xs arbitrary: acc)
  case Nil
  then show ?case by simp
next
  case (Cons x xs)
  have fresh: "fst x \<notin> fst ` set acc" using Cons.prems(2) by auto
  have "fst ` set (acc @ [x]) \<inter> fst ` set xs = {}" using Cons.prems by auto
  with Cons.IH [of "acc @ [x]"] Cons.prems(1) fresh show ?case
    by (simp add: update_fresh)
qed

lemma py_dict_distinct_id: "distinct (map fst xs) \<Longrightarrow> py_dict xs = xs"
  using foldl_update_distinct [of xs "[]"] by (simp add: py_dict_def)

lemma foldl_update_keys_distinct:
  "distinct (map fst acc) \<Longrightarrow>
   distinct (map fst (foldl (\<lambda>d kv. AList.update (fst kv) (snd kv) d) acc xs))"
  by (induction xs arbitrary: acc) (simp_all add: distinct_update)

lemma py_dict_keys_distinct: "distinct (map fst (py_dict xs))"
  by (simp add: py_dict_def foldl_update_keys_distinct)

lemma map_of_foldl_update:
  "map_of (foldl (\<lambda>d kv. AList.update (fst kv) (snd kv) d) acc xs) = map_of acc ++ map_of (rev xs)"
proof (induction xs arbitrary: acc)
  case Nil
  then show ?case by simp
next
  case (Cons x xs)
  show ?case
    by (simp add: Cons.IH update_conv' map_add_upd_left fun_eq_iff map_add_def split: option.splits)
qed

lemma map_of_py_dict: "map_of (py_dict xs) = map_of (rev xs)"
  by (simp add: py_dict_def map_of_foldl_update)

text \<open>When \<^verbatim>\<open>load_state\<close> raises and when it returns.\<close>

lemma load_state_inaccessible:
  "the_state_file fs = Inaccessible \<Longrightarrow> load_state fs = Inl OSError"
  by (simp add: load_state_def file_exists_def)

lemma load_state_accessible:
  "the_state_file fs \<noteq> Inaccessible \<Longrightarrow> \<exists>st. load_state fs = Inr st"
  by (cases "the_state_file fs")
     (simp_all add: load_state_def file_exists_def split: sum.splits)

lemma load_state_raises_iff:
  "load_state fs = Inl e \<longleftrightarrow> the_state_file fs = Inaccessible \<and> e = OSError"
proof (cases "the_state_file fs = Inaccessible")
  case True
  then show ?thesis by (auto simp: load_state_inaccessible)
next
  case False
  from load_state_accessible [OF False] obtain st where "load_state fs = Inr st" ..
  with False show ?thesis by simp
qed

lemma load_state_keys_distinct: "load_state fs = Inr st \<Longrightarrow> distinct (map fst st)"
  by (auto simp: load_state_def load_state_try_def py_dict_keys_distinct
      split: sum.splits json.splits if_splits)

lemma the_state_file_save: "the_state_file (save_state fs st) = Holds (json_dumps st)"
  by (simp add: save_state_def save_state_steps_def ensure_base_dir_def open_truncate_def
      write_close_def the_state_file_def Let_def split: option.splits)

lemma the_config_file_save: "the_config_file (save_state fs st) = the_config_file fs"
  by (simp add: save_state_def save_state_steps_def ensure_base_dir_def open_truncate_def
      write_close_def the_config_file_def Let_def split: option.splits)

lemma writes_save: "writes (save_state fs st) = Suc (writes fs)"
  by (simp add: save_state_def save_state_steps_def ensure_base_dir_def open_truncate_def
      write_close_def Let_def split: option.splits)



lemma load_after_save: "load_state (save_state fs st) = Inr (py_dict (sort_key fst st))"
  by (simp add: load_state_def load_state_try_def the_state_file_save json_dumps_def
      file_exists_def read_text_def loads_def py_str_def comp_def)

lemma sorted_keys_distinct:
  "distinct (map fst st) \<Longrightarrow> distinct (map fst (sort_key fst st))"
  by (simp add: distinct_map)

lemma map_of_sort_key:
  assumes "distinct (map fst st)"
  shows "map_of (sort_key fst st) = map_of st"
  using assms sorted_keys_distinct [OF assms]
  by (simp add: map_of_inject_set)

lemma load_save_sorted:
  "distinct (map fst st) \<Longrightarrow> load_state (save_state fs st) = Inr (sort_key fst st)"
  by (simp add: load_after_save py_dict_distinct_id sorted_keys_distinct)

lemma binding_after_save:
  "distinct (map fst st) \<Longrightarrow> state_binding (save_state fs st) k = Inr (map_of st k)"
  by (simp add: state_binding_def load_save_sorted map_of_sort_key)

lemma get_last_is_binding: "get_last_context fs = state_binding fs ''last_context''"
  by (simp add: get_last_context_def state_binding_def)

text \<open>What \<^verbatim>\<open>load_state\<close> returns when \<^verbatim>\<open>exists\<close> does not raise: the empty mapping
  for an absent, unreadable or unparseable file and for a document that is not an
  object, and the items of an object with \<^verbatim>\<open>str\<close> applied to each value.\<close>

lemma load_state_when_stat_succeeds:
  "(the_state_file fs = Absent \<longrightarrow> load_state fs = Inr []) \<and>
   (the_state_file fs = Unreadable \<longrightarrow> load_state fs = Inr []) \<and>
   (the_state_file fs = Holds Junk \<longrightarrow> load_state fs = Inr []) \<and>
   (\<forall>v. the_state_file fs = Holds (Denotes v) \<and> (\<forall>items. v \<noteq> JObj items)
        \<longrightarrow> load_state fs = Inr []) \<and>
   (\<forall>items. the_state_file fs = Holds (Denotes (JObj items)) \<longrightarrow>
        load_state fs = Inr (py_dict (map (\<lambda>kv. (fst kv, py_str (snd kv))) items)))"
proof -
  have absent: "the_state_file fs = Absent \<longrightarrow> load_state fs = Inr []"
    by (simp add: load_state_def file_exists_def)
  have unreadable: "the_state_file fs = Unreadable \<longrightarrow> load_state fs = Inr []"
    by (simp add: load_state_def load_state_try_def read_text_def file_exists_def)
  have junk: "the_state_file fs = Holds Junk \<longrightarrow> load_state fs = Inr []"
    by (simp add: load_state_def load_state_try_def read_text_def loads_def file_exists_def)
  have other: "\<forall>v. the_state_file fs = Holds (Denotes v) \<and> (\<forall>items. v \<noteq> JObj items)
        \<longrightarrow> load_state fs = Inr []"
    by (auto simp: load_state_def load_state_try_def read_text_def loads_def file_exists_def
        split: json.splits)
  have obj: "\<forall>items. the_state_file fs = Holds (Denotes (JObj items)) \<longrightarrow>
        load_state fs = Inr (py_dict (map (\<lambda>kv. (fst kv, py_str (snd kv))) items))"
    by (simp add: load_state_def load_state_try_def read_text_def loads_def file_exists_def)
  from absent unreadable junk other obj show ?thesis by blast
qed

text \<open>
  Claim C8 says that \<^verbatim>\<open>load_state\<close> never raises and returns the empty mapping for an
  unreadable state file. The code does not do that: \<^verbatim>\<open>paths.state_file.exists()\<close> is
  called before the \<^verbatim>\<open>try\<close> block, and where \<^verbatim>\<open>stat\<close> on the state file fails with an
  error such as EACCES it raises, so \<^verbatim>\<open>load_state\<close> raises an \<^verbatim>\<open>OSError\<close>. An
  unreadable file that \<^verbatim>\<open>stat\<close> can see gives the empty mapping, as the comment in
  the handler intends.
\<close>

theorem load_state_raises_when_stat_fails:
  "load_state (disk_of Inaccessible Absent) = Inl OSError \<and>
   load_state (disk_of Unreadable Absent) = Inr []"
  by (simp add: load_state_def load_state_try_def file_exists_def read_text_def
      the_state_file_def disk_of_def)

section \<open>Properties of the adapter\<close>

text \<open>Running the tool changes its state and the call log, nothing else.\<close>

lemma snd_run_kubectl:
  "snd (run_kubectl tool args w)
     = w\<lparr>kube := snd (tool (''kubectl'' # args) (kube w)), calls := calls w @ [''kubectl'' # args]\<rparr>"
  by (simp add: run_kubectl_def Let_def)


lemma snd_get_current_context:
  "snd (get_current_context tool w) = snd (run_kubectl tool [''config'', ''current-context''] w)"
  by (simp add: get_current_context_def Let_def)

lemma snd_use_context:
  "snd (use_context tool name w) = snd (run_kubectl tool [''config'', ''use-context'', name] w)"
  by (simp add: use_context_def Let_def)

lemma snd_rename_context:
  "snd (rename_context tool old new w)
     = snd (run_kubectl tool [''config'', ''rename-context'', old, new] w)"
  by (simp add: rename_context_def Let_def)

lemma snd_delete_context:
  "snd (delete_context tool name w) = snd (run_kubectl tool [''config'', ''delete-context'', name] w)"
  by (simp add: delete_context_def Let_def)

lemma fst_use_context:
  "fst (use_context tool name w)
     = (let completed = fst (run_kubectl tool [''config'', ''use-context'', name] w)
        in if returncode completed \<noteq> 0
           then Inl (RuntimeError (''Failed to switch context to '' @ py_repr name @ '': ''
                                     @ error_message completed))
           else Inr ())"
  by (simp add: use_context_def Let_def)

lemma fst_rename_context:
  "fst (rename_context tool old new w)
     = (let completed = fst (run_kubectl tool [''config'', ''rename-context'', old, new] w)
        in if returncode completed \<noteq> 0
           then Inl (RuntimeError (''Failed to rename context '' @ py_repr old @ '' '' @ RIGHT_ARROW
                                     @ '' '' @ py_repr new @ '': '' @ error_message completed))
           else Inr ())"
  by (simp add: rename_context_def Let_def)

lemma fst_delete_context:
  "fst (delete_context tool name w)
     = (let completed = fst (run_kubectl tool [''config'', ''delete-context'', name] w)
        in if returncode completed \<noteq> 0
           then Inl (RuntimeError (''Failed to delete context '' @ py_repr name @ '': ''
                                     @ error_message completed))
           else Inr ())"
  by (simp add: delete_context_def Let_def)

lemma run_kubectl_frame:
  "disk (snd (run_kubectl tool args w)) = disk w"
  "printed_out (snd (run_kubectl tool args w)) = printed_out w"
  "printed_err (snd (run_kubectl tool args w)) = printed_err w"
  "stdout_isatty (snd (run_kubectl tool args w)) = stdout_isatty w"
  "stderr_isatty (snd (run_kubectl tool args w)) = stderr_isatty w"
  "has_tomllib (snd (run_kubectl tool args w)) = has_tomllib w"
  "calls (snd (run_kubectl tool args w)) = calls w @ [''kubectl'' # args]"
  by (simp_all add: snd_run_kubectl)

lemmas adapter_snd = snd_get_current_context snd_use_context snd_rename_context snd_delete_context

lemma print_frame:
  "disk (print_err s w) = disk w"
  "disk (print_out s w) = disk w"
  "kube (print_err s w) = kube w"
  "kube (print_out s w) = kube w"
  "calls (print_err s w) = calls w"
  "calls (print_out s w) = calls w"
  "printed_err (print_err s w) = printed_err w @ [s]"
  "printed_out (print_err s w) = printed_out w"
  "printed_err (print_out s w) = printed_err w"
  "printed_out (print_out s w) = printed_out w @ [s]"
  "stdout_isatty (print_err s w) = stdout_isatty w"
  "stdout_isatty (print_out s w) = stdout_isatty w"
  "stderr_isatty (print_err s w) = stderr_isatty w"
  "stderr_isatty (print_out s w) = stderr_isatty w"
  "has_tomllib (print_err s w) = has_tomllib w"
  "has_tomllib (print_out s w) = has_tomllib w"
  by (simp_all add: print_err_def print_out_def)

text \<open>The end of a switch, written out: the second load of the labels, inside
  \<^verbatim>\<open>warn_if_prod\<close>, sees the same config file as the first.\<close>

lemma show_new_current_eq:
  "show_new_current tool w
     = (case fst (get_current_context tool w) of
          None \<Rightarrow> (Inr 0, snd (get_current_context tool w))
        | Some c \<Rightarrow>
            (case load_labels (has_tomllib w) (disk w) of
               Inl e \<Rightarrow> (Inl e, snd (get_current_context tool w))
             | Inr labels \<Rightarrow>
                 (Inr 0,
                  case map_of labels c of
                    None \<Rightarrow> print_out c (snd (get_current_context tool w))
                  | Some env \<Rightarrow>
                      if py_lower env = ''prod''
                      then print_err (''WARNING: context '' @ py_repr c @ '' is labeled ''
                                        @ format_env_label env (stderr_isatty w))
                             (print_out (format_env_label env (stdout_isatty w) @ '' '' @ c)
                                (snd (get_current_context tool w)))
                      else print_out (format_env_label env (stdout_isatty w) @ '' '' @ c)
                             (snd (get_current_context tool w)))))"
proof -
  let ?w1 = "snd (get_current_context tool w)"
  have same: "has_tomllib ?w1 = has_tomllib w" "disk ?w1 = disk w"
    "stdout_isatty ?w1 = stdout_isatty w" "stderr_isatty ?w1 = stderr_isatty w"
    by (simp_all add: adapter_snd run_kubectl_frame)
  show ?thesis
    by (simp add: show_new_current_def warn_if_prod_def Let_def same print_frame
        split: option.splits sum.splits)
qed

lemma show_new_current_frame:
  "disk (snd (show_new_current tool w)) = disk w"
  "kube (snd (show_new_current tool w)) = kube (snd (get_current_context tool w))"
  "calls (snd (show_new_current tool w)) = calls w @ [[''kubectl'', ''config'', ''current-context'']]"
  by (simp_all add: show_new_current_eq print_frame adapter_snd run_kubectl_frame snd_run_kubectl
      split: option.splits sum.splits)


section \<open>The commands\<close>

text \<open>Recording a context: what the state store holds afterwards.\<close>

lemma record_last_context_none: "record_last_context fs None = Inr fs"
  by (simp add: record_last_context_def)

lemma record_last_context_some:
  "load_state fs = Inr st \<Longrightarrow>
   record_last_context fs (Some c) = Inr (save_state fs (AList.update ''last_context'' c st))"
  by (simp add: record_last_context_def Let_def)

lemma record_last_context_raises:
  "load_state fs = Inl e \<Longrightarrow> record_last_context fs (Some c) = Inl e"
  by (simp add: record_last_context_def)


lemma binding_after_record:
  assumes "record_last_context fs (Some c) = Inr fs'"
  shows "state_binding fs' k = (if k = ''last_context'' then Inr (Some c) else state_binding fs k)"
proof (cases "load_state fs")
  case (Inl e)
  with assms show ?thesis by (simp add: record_last_context_raises)
next
  case (Inr st)
  with assms have fs': "fs' = save_state fs (AList.update ''last_context'' c st)"
    by (simp add: record_last_context_some)
  have "distinct (map fst (AList.update ''last_context'' c st))"
    by (simp add: distinct_update load_state_keys_distinct [OF Inr])
  from binding_after_save [OF this] show ?thesis
    by (simp add: fs' update_conv' state_binding_def Inr)
qed

lemma get_last_after_record:
  "record_last_context fs (Some c) = Inr fs' \<Longrightarrow> get_last_context fs' = Inr (Some c)"
  by (simp add: get_last_is_binding binding_after_record)

lemma writes_after_record:
  "record_last_context fs (Some c) = Inr fs' \<Longrightarrow> writes fs' = Suc (writes fs)"
  by (cases "load_state fs")
     (auto simp: record_last_context_raises record_last_context_some writes_save)


text \<open>Recording, then the end of the switch.\<close>

lemma world_disk_same: "w\<lparr>disk := disk w\<rparr> = w"
  by simp

lemma record_and_show_recorded:
  assumes "record_last_context (disk w2) current = Inr fs'"
  shows "record_and_show tool current w2 = show_new_current tool (w2\<lparr>disk := fs'\<rparr>)"
proof (cases current)
  case None
  with assms have "fs' = disk w2"
    by (simp add: record_last_context_none)
  then show ?thesis
    by (simp add: record_and_show_def None)
next
  case (Some c)
  with assms show ?thesis
    by (simp add: record_and_show_def)
qed

lemma record_and_show_raises:
  assumes "record_last_context (disk w2) current = Inl e"
  shows "record_and_show tool current w2 = (Inl e, w2)"
  using assms by (cases current) (simp_all add: record_and_show_def record_last_context_none)

lemma record_and_show_disk:
  "disk (snd (record_and_show tool current w2)) = disk w2 \<or>
   record_last_context (disk w2) current = Inr (disk (snd (record_and_show tool current w2)))"
proof (cases "record_last_context (disk w2) current")
  case (Inl e)
  then show ?thesis by (simp add: record_and_show_raises)
next
  case (Inr fs')
  then show ?thesis by (simp add: record_and_show_recorded show_new_current_frame)
qed

text \<open>The two branches of \<^verbatim>\<open>switch_context_command\<close>, by the outcome of the switch
  call.\<close>

lemma switch_normal_failed:
  assumes "target \<noteq> ''-''"
    and "fst (use_context tool target (snd (get_current_context tool w))) = Inl error"
  shows "switch_context_command tool target w
           = (Inr 1, print_err (str_error error)
                       (snd (use_context tool target (snd (get_current_context tool w)))))"
  using assms
  by (cases "use_context tool target (snd (get_current_context tool w))")
     (simp add: switch_context_command_def Let_def)

lemma switch_normal_succeeded:
  assumes "target \<noteq> ''-''"
    and "fst (use_context tool target (snd (get_current_context tool w))) = Inr u"
  shows "switch_context_command tool target w
           = record_and_show tool (fst (get_current_context tool w))
               (snd (use_context tool target (snd (get_current_context tool w))))"
  using assms
  by (cases "use_context tool target (snd (get_current_context tool w))")
     (simp add: switch_context_command_def Let_def)

lemma toggle_raises:
  assumes "get_last_context (disk w) = Inl e"
  shows "switch_context_command tool ''-'' w = (Inl e, snd (get_current_context tool w))"
proof -
  have d: "disk (snd (get_current_context tool w)) = disk w"
    by (simp add: adapter_snd run_kubectl_frame)
  show ?thesis
    using assms by (simp add: switch_context_command_def Let_def d)
qed

lemma toggle_nothing:
  assumes "get_last_context (disk w) = Inr None"
  shows "switch_context_command tool ''-'' w
           = (Inr 1, print_err ''No last context recorded yet.'' (snd (get_current_context tool w)))"
proof -
  have d: "disk (snd (get_current_context tool w)) = disk w"
    by (simp add: adapter_snd run_kubectl_frame)
  show ?thesis
    using assms by (simp add: switch_context_command_def Let_def d)
qed

lemma toggle_failed:
  assumes "get_last_context (disk w) = Inr (Some l)"
    and "fst (use_context tool l (snd (get_current_context tool w))) = Inl error"
  shows "switch_context_command tool ''-'' w
           = (Inr 1, print_err (str_error error)
                       (snd (use_context tool l (snd (get_current_context tool w)))))"
proof -
  have d: "disk (snd (get_current_context tool w)) = disk w"
    by (simp add: adapter_snd run_kubectl_frame)
  show ?thesis
    using assms
    by (cases "use_context tool l (snd (get_current_context tool w))")
       (simp add: switch_context_command_def Let_def d)
qed

lemma toggle_succeeded:
  assumes "get_last_context (disk w) = Inr (Some l)"
    and "fst (use_context tool l (snd (get_current_context tool w))) = Inr u"
  shows "switch_context_command tool ''-'' w
           = record_and_show tool (fst (get_current_context tool w))
               (snd (use_context tool l (snd (get_current_context tool w))))"
proof -
  have d: "disk (snd (get_current_context tool w)) = disk w"
    by (simp add: adapter_snd run_kubectl_frame)
  show ?thesis
    using assms
    by (cases "use_context tool l (snd (get_current_context tool w))")
       (simp add: switch_context_command_def Let_def d)
qed

lemma disk_after_use_context:
  "disk (snd (use_context tool n (snd (get_current_context tool w)))) = disk w"
  by (simp add: adapter_snd run_kubectl_frame)

text \<open>
  Claim C5. The toggle command, run when the persisted state has no \<^verbatim>\<open>last_context\<close>
  key, returns 1, prints its own message ("No last context recorded yet.") on the
  diagnostic stream and nothing on the result stream, runs the tool once, for the
  current-context query and never for a switch, and leaves the file system as it was.
\<close>

theorem toggle_without_last_context:
  assumes "get_last_context (disk w) = Inr None"
  shows "fst (switch_context_command tool ''-'' w) = Inr 1 \<and>
         printed_err (snd (switch_context_command tool ''-'' w))
           = printed_err w @ [''No last context recorded yet.''] \<and>
         printed_out (snd (switch_context_command tool ''-'' w)) = printed_out w \<and>
         calls (snd (switch_context_command tool ''-'' w))
           = calls w @ [[''kubectl'', ''config'', ''current-context'']] \<and>
         disk (snd (switch_context_command tool ''-'' w)) = disk w"
  by (simp add: toggle_nothing [OF assms] print_frame adapter_snd run_kubectl_frame)

theorem toggle_without_last_context_witness:
  "get_last_context (disk (sim_world \<lparr>sim_contexts = [''a'', ''b''], sim_current = Some ''a''\<rparr>
                             (disk_of Absent Absent))) = Inr None \<and>
   switch_context_command sim_kubectl ''-''
     (sim_world \<lparr>sim_contexts = [''a'', ''b''], sim_current = Some ''a''\<rparr> (disk_of Absent Absent))
   = (Inr 1, (sim_world \<lparr>sim_contexts = [''a'', ''b''], sim_current = Some ''a''\<rparr>
                (disk_of Absent Absent))
               \<lparr>calls := [[''kubectl'', ''config'', ''current-context'']],
                printed_err := [''No last context recorded yet.'']\<rparr>)"
proof -
  let ?w = "sim_world \<lparr>sim_contexts = [''a'', ''b''], sim_current = Some ''a''\<rparr> (disk_of Absent Absent)"
  have no_last: "get_last_context (disk ?w) = Inr None"
    by (simp add: get_last_context_def load_state_def file_exists_def the_state_file_def
        sim_world_def disk_of_def)
  note eq = toggle_nothing [OF no_last, of sim_kubectl]
  have kube_same: "kube (snd (switch_context_command sim_kubectl ''-'' ?w)) = kube ?w"
    unfolding eq
    by (simp add: adapter_snd run_kubectl_frame print_frame snd_run_kubectl sim_world_def
        sim_ok_def)
  have flags: "stdout_isatty (snd (switch_context_command sim_kubectl ''-'' ?w)) = stdout_isatty ?w"
    "stderr_isatty (snd (switch_context_command sim_kubectl ''-'' ?w)) = stderr_isatty ?w"
    "has_tomllib (snd (switch_context_command sim_kubectl ''-'' ?w)) = has_tomllib ?w"
    unfolding eq
    by (simp_all add: adapter_snd run_kubectl_frame print_frame)
  from toggle_without_last_context [OF no_last, of sim_kubectl] kube_same flags no_last
  show ?thesis
    by (cases "switch_context_command sim_kubectl ''-'' ?w") (simp add: sim_world_def)
qed

text \<open>
  Claim C1. A switch command with a target other than "-" that succeeds (returns 0):
  if the tool named a current context \<open>a\<close> just before the switch, the persisted state
  is rewritten once and its \<^verbatim>\<open>last_context\<close> is \<open>a\<close> afterwards, whatever it was
  before; if the tool named no current context, the file system is left as it was.
\<close>

theorem switch_records_current_before:
  assumes "target \<noteq> ''-''"
    and "fst (switch_context_command tool target w) = Inr 0"
  shows "(\<forall>a. fst (get_current_context tool w) = Some a \<longrightarrow>
            get_last_context (disk (snd (switch_context_command tool target w))) = Inr (Some a) \<and>
            writes (disk (snd (switch_context_command tool target w))) = Suc (writes (disk w))) \<and>
         (fst (get_current_context tool w) = None \<longrightarrow>
            disk (snd (switch_context_command tool target w)) = disk w)"
proof (cases "fst (use_context tool target (snd (get_current_context tool w)))")
  case (Inl error)
  from switch_normal_failed [OF assms(1) Inl] assms(2) show ?thesis by simp
next
  case (Inr u)
  let ?w2 = "snd (use_context tool target (snd (get_current_context tool w)))"
  let ?cur = "fst (get_current_context tool w)"
  note eq = switch_normal_succeeded [OF assms(1) Inr]
  have d: "disk ?w2 = disk w"
    by (rule disk_after_use_context)
  show ?thesis
  proof (cases "record_last_context (disk ?w2) ?cur")
    case (Inl e)
    from record_and_show_raises [OF Inl] eq assms(2) show ?thesis by simp
  next
    case recorded: (Inr fs')
    have after: "disk (snd (switch_context_command tool target w)) = fs'"
      by (simp add: eq record_and_show_recorded [OF recorded] show_new_current_frame)
    show ?thesis
    proof (intro conjI allI impI)
      fix a assume a: "?cur = Some a"
      with recorded d have r: "record_last_context (disk w) (Some a) = Inr fs'" by simp
      show "get_last_context (disk (snd (switch_context_command tool target w))) = Inr (Some a)"
        by (simp add: after get_last_after_record [OF r])
      show "writes (disk (snd (switch_context_command tool target w))) = Suc (writes (disk w))"
        by (simp add: after writes_after_record [OF r])
    next
      assume "?cur = None"
      with recorded d show "disk (snd (switch_context_command tool target w)) = disk w"
        by (simp add: after record_last_context_none)
    qed
  qed
qed

theorem switch_records_current_before_witness:
  "''b'' \<noteq> ''-'' \<and>
   fst (switch_context_command sim_kubectl ''b''
          (sim_world \<lparr>sim_contexts = [''a'', ''b''], sim_current = Some ''a''\<rparr>
             (disk_of (Holds (Denotes (JObj [(''last_context'', JStr ''z'')]))) Absent))) = Inr 0 \<and>
   fst (get_current_context sim_kubectl
          (sim_world \<lparr>sim_contexts = [''a'', ''b''], sim_current = Some ''a''\<rparr>
             (disk_of (Holds (Denotes (JObj [(''last_context'', JStr ''z'')]))) Absent))) = Some ''a'' \<and>
   get_last_context (disk (snd (switch_context_command sim_kubectl ''b''
          (sim_world \<lparr>sim_contexts = [''a'', ''b''], sim_current = Some ''a''\<rparr>
             (disk_of (Holds (Denotes (JObj [(''last_context'', JStr ''z'')]))) Absent)))))
     = Inr (Some ''a'') \<and>
   fst (switch_context_command sim_kubectl ''b''
          (sim_world \<lparr>sim_contexts = [''a'', ''b''], sim_current = None\<rparr>
             (disk_of (Holds (Denotes (JObj [(''last_context'', JStr ''z'')]))) Absent))) = Inr 0 \<and>
   fst (get_current_context sim_kubectl
          (sim_world \<lparr>sim_contexts = [''a'', ''b''], sim_current = None\<rparr>
             (disk_of (Holds (Denotes (JObj [(''last_context'', JStr ''z'')]))) Absent))) = None \<and>
   disk (snd (switch_context_command sim_kubectl ''b''
          (sim_world \<lparr>sim_contexts = [''a'', ''b''], sim_current = None\<rparr>
             (disk_of (Holds (Denotes (JObj [(''last_context'', JStr ''z'')]))) Absent))))
     = disk_of (Holds (Denotes (JObj [(''last_context'', JStr ''z'')]))) Absent"
proof -
  let ?fs = "disk_of (Holds (Denotes (JObj [(''last_context'', JStr ''z'')]))) Absent"
  let ?wa = "sim_world \<lparr>sim_contexts = [''a'', ''b''], sim_current = Some ''a''\<rparr> ?fs"
  let ?wn = "sim_world \<lparr>sim_contexts = [''a'', ''b''], sim_current = None\<rparr> ?fs"
  have t: "''b'' \<noteq> ''-''" by simp
  have ok_a: "fst (switch_context_command sim_kubectl ''b'' ?wa) = Inr 0"
    by code_simp
  have ok_n: "fst (switch_context_command sim_kubectl ''b'' ?wn) = Inr 0"
    by code_simp
  have cur_a: "fst (get_current_context sim_kubectl ?wa) = Some ''a''"
    by code_simp
  have cur_n: "fst (get_current_context sim_kubectl ?wn) = None"
    by code_simp
  have d: "disk ?wn = ?fs"
    by (simp add: sim_world_def)
  from switch_records_current_before [OF t ok_a, THEN conjunct1, rule_format, OF cur_a]
    switch_records_current_before [OF t ok_n, THEN conjunct2, rule_format, OF cur_n]
    t ok_a ok_n cur_a cur_n d
  show ?thesis by simp
qed

text \<open>The text the adapter puts into its error: the tool's stderr without the white
  space around it, and that is the stderr text itself when it has none.\<close>

lemma py_strip_no_margin:
  assumes "s \<noteq> []" and "\<not> py_isspace (hd s)" and "\<not> py_isspace (last s)"
  shows "py_strip s = s"
proof -
  have front: "dropWhile py_isspace s = s"
    using assms(1,2) by (cases s) simp_all
  obtain xs x where s: "s = xs @ [x]"
    using assms(1) by (cases s rule: rev_cases) auto
  have "dropWhile py_isspace (rev s) = rev s"
    using assms(3) by (simp add: s)
  with front show ?thesis by (simp add: py_strip_def)
qed

lemma rename_failed:
  assumes "fst (rename_context tool old new w) = Inl error"
  shows "rename_context_command tool old new w
           = (Inr 1, print_err (str_error error) (snd (rename_context tool old new w)))"
  using assms by (cases "rename_context tool old new w") (simp add: rename_context_command_def)

lemma delete_raises:
  assumes "load_state (disk w) = Inl e"
  shows "delete_context_command tool name w = (Inl e, w)"
  using assms by (simp add: delete_context_command_def)

lemma delete_failed:
  assumes "load_state (disk w) = Inr st"
    and "fst (delete_context tool name w) = Inl error"
  shows "delete_context_command tool name w
           = (Inr 1, print_err (str_error error) (snd (delete_context tool name w)))"
  using assms
  by (cases "delete_context tool name w") (simp add: delete_context_command_def Let_def)

text \<open>
  Claim C3. When the tool call a switch, toggle, rename or delete command delegates to
  exits with a non-zero code, the command returns 1, prints on the diagnostic stream one
  line that ends with the tool's stderr text (stripped of surrounding white space;
  "kubectl failed" stands in for a blank one), prints nothing on the result stream, and
  leaves the file system, the write count included, as it was. The delete command
  loads the state before it runs the tool: where that load raises, the tool is not run
  at all and the world is left as it was.
\<close>

theorem failed_tool_call_reported_state_untouched:
  "(target \<noteq> ''-'' \<longrightarrow>
      returncode (fst (run_kubectl tool [''config'', ''use-context'', target]
                         (snd (get_current_context tool w)))) \<noteq> 0 \<longrightarrow>
      fst (switch_context_command tool target w) = Inr 1 \<and>
      disk (snd (switch_context_command tool target w)) = disk w \<and>
      printed_out (snd (switch_context_command tool target w)) = printed_out w \<and>
      printed_err (snd (switch_context_command tool target w))
        = printed_err w @
          [''Failed to switch context to '' @ py_repr target @ '': '' @
           error_message (fst (run_kubectl tool [''config'', ''use-context'', target]
                                 (snd (get_current_context tool w))))]) \<and>
   (\<forall>l. get_last_context (disk w) = Inr (Some l) \<longrightarrow>
      returncode (fst (run_kubectl tool [''config'', ''use-context'', l]
                         (snd (get_current_context tool w)))) \<noteq> 0 \<longrightarrow>
      fst (switch_context_command tool ''-'' w) = Inr 1 \<and>
      disk (snd (switch_context_command tool ''-'' w)) = disk w \<and>
      printed_out (snd (switch_context_command tool ''-'' w)) = printed_out w \<and>
      printed_err (snd (switch_context_command tool ''-'' w))
        = printed_err w @
          [''Failed to switch context to '' @ py_repr l @ '': '' @
           error_message (fst (run_kubectl tool [''config'', ''use-context'', l]
                                 (snd (get_current_context tool w))))]) \<and>
   (returncode (fst (run_kubectl tool [''config'', ''rename-context'', old, new] w)) \<noteq> 0 \<longrightarrow>
      fst (rename_context_command tool old new w) = Inr 1 \<and>
      disk (snd (rename_context_command tool old new w)) = disk w \<and>
      printed_out (snd (rename_context_command tool old new w)) = printed_out w \<and>
      printed_err (snd (rename_context_command tool old new w))
        = printed_err w @
          [''Failed to rename context '' @ py_repr old @ '' '' @ RIGHT_ARROW @ '' '' @ py_repr new
           @ '': '' @
           error_message (fst (run_kubectl tool [''config'', ''rename-context'', old, new] w))]) \<and>
   (the_state_file (disk w) \<noteq> Inaccessible \<longrightarrow>
    returncode (fst (run_kubectl tool [''config'', ''delete-context'', name] w)) \<noteq> 0 \<longrightarrow>
      fst (delete_context_command tool name w) = Inr 1 \<and>
      disk (snd (delete_context_command tool name w)) = disk w \<and>
      printed_out (snd (delete_context_command tool name w)) = printed_out w \<and>
      printed_err (snd (delete_context_command tool name w))
        = printed_err w @
          [''Failed to delete context '' @ py_repr name @ '': '' @
           error_message (fst (run_kubectl tool [''config'', ''delete-context'', name] w))]) \<and>
   (the_state_file (disk w) = Inaccessible \<longrightarrow>
      delete_context_command tool name w = (Inl OSError, w)) \<and>
   (\<forall>c. py_strip (stderr c) \<noteq> [] \<longrightarrow> error_message c = py_strip (stderr c)) \<and>
   (\<forall>c. stderr c \<noteq> [] \<and> \<not> py_isspace (hd (stderr c)) \<and> \<not> py_isspace (last (stderr c))
        \<longrightarrow> error_message c = stderr c)"
proof -
  let ?w1 = "snd (get_current_context tool w)"
  have switch: "fst (switch_context_command tool target w) = Inr 1 \<and>
      disk (snd (switch_context_command tool target w)) = disk w \<and>
      printed_out (snd (switch_context_command tool target w)) = printed_out w \<and>
      printed_err (snd (switch_context_command tool target w))
        = printed_err w @
          [''Failed to switch context to '' @ py_repr target @ '': '' @
           error_message (fst (run_kubectl tool [''config'', ''use-context'', target] ?w1))]"
    if t: "target \<noteq> ''-''"
      and rc: "returncode (fst (run_kubectl tool [''config'', ''use-context'', target] ?w1)) \<noteq> 0"
  proof -
    have "fst (use_context tool target ?w1)
            = Inl (RuntimeError (''Failed to switch context to '' @ py_repr target @ '': '' @
                 error_message (fst (run_kubectl tool [''config'', ''use-context'', target] ?w1))))"
      using rc by (simp add: fst_use_context Let_def)
    from switch_normal_failed [OF t this] show ?thesis
      by (simp add: print_frame adapter_snd run_kubectl_frame)
  qed
  have toggle: "fst (switch_context_command tool ''-'' w) = Inr 1 \<and>
      disk (snd (switch_context_command tool ''-'' w)) = disk w \<and>
      printed_out (snd (switch_context_command tool ''-'' w)) = printed_out w \<and>
      printed_err (snd (switch_context_command tool ''-'' w))
        = printed_err w @
          [''Failed to switch context to '' @ py_repr l @ '': '' @
           error_message (fst (run_kubectl tool [''config'', ''use-context'', l] ?w1))]"
    if last: "get_last_context (disk w) = Inr (Some l)"
      and rc: "returncode (fst (run_kubectl tool [''config'', ''use-context'', l] ?w1)) \<noteq> 0"
    for l
  proof -
    have "fst (use_context tool l ?w1)
            = Inl (RuntimeError (''Failed to switch context to '' @ py_repr l @ '': '' @
                 error_message (fst (run_kubectl tool [''config'', ''use-context'', l] ?w1))))"
      using rc by (simp add: fst_use_context Let_def)
    from toggle_failed [OF last this] show ?thesis
      by (simp add: print_frame adapter_snd run_kubectl_frame)
  qed
  have rename: "fst (rename_context_command tool old new w) = Inr 1 \<and>
      disk (snd (rename_context_command tool old new w)) = disk w \<and>
      printed_out (snd (rename_context_command tool old new w)) = printed_out w \<and>
      printed_err (snd (rename_context_command tool old new w))
        = printed_err w @
          [''Failed to rename context '' @ py_repr old @ '' '' @ RIGHT_ARROW @ '' '' @ py_repr new
           @ '': '' @
           error_message (fst (run_kubectl tool [''config'', ''rename-context'', old, new] w))]"
    if rc: "returncode (fst (run_kubectl tool [''config'', ''rename-context'', old, new] w)) \<noteq> 0"
  proof -
    have "fst (rename_context tool old new w)
            = Inl (RuntimeError (''Failed to rename context '' @ py_repr old @ '' '' @ RIGHT_ARROW
                 @ '' '' @ py_repr new @ '': '' @
                 error_message (fst (run_kubectl tool [''config'', ''rename-context'', old, new] w))))"
      using rc by (simp add: fst_rename_context Let_def)
    from rename_failed [OF this] show ?thesis
      by (simp add: print_frame adapter_snd run_kubectl_frame)
  qed
  have delete: "fst (delete_context_command tool name w) = Inr 1 \<and>
      disk (snd (delete_context_command tool name w)) = disk w \<and>
      printed_out (snd (delete_context_command tool name w)) = printed_out w \<and>
      printed_err (snd (delete_context_command tool name w))
        = printed_err w @
          [''Failed to delete context '' @ py_repr name @ '': '' @
           error_message (fst (run_kubectl tool [''config'', ''delete-context'', name] w))]"
    if acc: "the_state_file (disk w) \<noteq> Inaccessible"
      and rc: "returncode (fst (run_kubectl tool [''config'', ''delete-context'', name] w)) \<noteq> 0"
  proof -
    from load_state_accessible [OF acc] obtain st where st: "load_state (disk w) = Inr st" ..
    have "fst (delete_context tool name w)
            = Inl (RuntimeError (''Failed to delete context '' @ py_repr name @ '': '' @
                 error_message (fst (run_kubectl tool [''config'', ''delete-context'', name] w))))"
      using rc by (simp add: fst_delete_context Let_def)
    from delete_failed [OF st this] show ?thesis
      by (simp add: print_frame adapter_snd run_kubectl_frame)
  qed
  have crash: "delete_context_command tool name w = (Inl OSError, w)"
    if "the_state_file (disk w) = Inaccessible"
    by (rule delete_raises) (rule load_state_inaccessible [OF that])
  have stripped: "error_message c = py_strip (stderr c)" if "py_strip (stderr c) \<noteq> []" for c
    using that by (simp add: error_message_def Let_def)
  have verbatim: "error_message c = stderr c"
    if "stderr c \<noteq> [] \<and> \<not> py_isspace (hd (stderr c)) \<and> \<not> py_isspace (last (stderr c))" for c
    using that py_strip_no_margin [of "stderr c"] by (simp add: error_message_def Let_def)
  show ?thesis
    apply (intro conjI)
    subgoal by (intro impI, rule switch, assumption+)
    subgoal by (intro allI impI, rule toggle, assumption+)
    subgoal by (intro impI, rule rename, assumption)
    subgoal by (intro impI, rule delete, assumption+)
    subgoal by (intro impI, rule crash, assumption)
    subgoal by (intro allI impI, rule stripped, assumption)
    subgoal by (intro allI impI, rule verbatim, assumption)
    done
qed
theorem failed_tool_call_reported_state_untouched_witness:
  "''nope'' \<noteq> ''-'' \<and>
   returncode (fst (run_kubectl sim_kubectl [''config'', ''use-context'', ''nope'']
                      (snd (get_current_context sim_kubectl (example_world ''gone''))))) \<noteq> 0 \<and>
   fst (switch_context_command sim_kubectl ''nope'' (example_world ''gone'')) = Inr 1 \<and>
   disk (snd (switch_context_command sim_kubectl ''nope'' (example_world ''gone'')))
     = example_disk ''gone'' \<and>
   printed_err (snd (switch_context_command sim_kubectl ''nope'' (example_world ''gone'')))
     = [''Failed to switch context to '' @ py_repr ''nope'' @
        '': error: no context exists with the name: nope''] \<and>
   get_last_context (disk (example_world ''gone'')) = Inr (Some ''gone'') \<and>
   returncode (fst (run_kubectl sim_kubectl [''config'', ''use-context'', ''gone'']
                      (snd (get_current_context sim_kubectl (example_world ''gone''))))) \<noteq> 0 \<and>
   fst (switch_context_command sim_kubectl ''-'' (example_world ''gone'')) = Inr 1 \<and>
   disk (snd (switch_context_command sim_kubectl ''-'' (example_world ''gone'')))
     = example_disk ''gone'' \<and>
   returncode (fst (run_kubectl sim_kubectl [''config'', ''rename-context'', ''x'', ''y'']
                      (example_world ''gone''))) \<noteq> 0 \<and>
   fst (rename_context_command sim_kubectl ''x'' ''y'' (example_world ''gone'')) = Inr 1 \<and>
   disk (snd (rename_context_command sim_kubectl ''x'' ''y'' (example_world ''gone'')))
     = example_disk ''gone'' \<and>
   the_state_file (disk (example_world ''gone'')) \<noteq> Inaccessible \<and>
   returncode (fst (run_kubectl sim_kubectl [''config'', ''delete-context'', ''gone'']
                      (example_world ''gone''))) \<noteq> 0 \<and>
   fst (delete_context_command sim_kubectl ''gone'' (example_world ''gone'')) = Inr 1 \<and>
   disk (snd (delete_context_command sim_kubectl ''gone'' (example_world ''gone'')))
     = example_disk ''gone'' \<and>
   py_strip (stderr \<lparr>returncode = 1, stdout = [], stderr = ''boom'' @ [CHR 0x0A]\<rparr>) \<noteq> [] \<and>
   error_message \<lparr>returncode = 1, stdout = [], stderr = ''boom'' @ [CHR 0x0A]\<rparr> = ''boom'' \<and>
   error_message \<lparr>returncode = 1, stdout = [], stderr = ''no such context''\<rparr> = ''no such context'' \<and>
   delete_context_command sim_kubectl ''gone'' (sim_world example_tool_state (disk_of Inaccessible Absent))
     = (Inl OSError, sim_world example_tool_state (disk_of Inaccessible Absent))"
proof -
  let ?w = "example_world ''gone''"
  note T = failed_tool_call_reported_state_untouched
             [where tool = sim_kubectl and w = ?w and target = "''nope''"
                and old = "''x''" and new = "''y''" and name = "''gone''"]
  have d: "disk ?w = example_disk ''gone''" and pe: "printed_err ?w = []"
    by (simp_all add: example_world_def sim_world_def)
  have t: "''nope'' \<noteq> ''-''" by simp
  have h1: "returncode (fst (run_kubectl sim_kubectl [''config'', ''use-context'', ''nope'']
                      (snd (get_current_context sim_kubectl ?w)))) \<noteq> 0"
    by code_simp
  have m1: "error_message (fst (run_kubectl sim_kubectl [''config'', ''use-context'', ''nope'']
                      (snd (get_current_context sim_kubectl ?w))))
              = ''error: no context exists with the name: nope''"
    by code_simp
  have last: "get_last_context (disk ?w) = Inr (Some ''gone'')"
    by code_simp
  have h2: "returncode (fst (run_kubectl sim_kubectl [''config'', ''use-context'', ''gone'']
                      (snd (get_current_context sim_kubectl ?w)))) \<noteq> 0"
    by code_simp
  have h3: "returncode (fst (run_kubectl sim_kubectl [''config'', ''rename-context'', ''x'', ''y'']
                      ?w)) \<noteq> 0"
    by code_simp
  have h4: "returncode (fst (run_kubectl sim_kubectl [''config'', ''delete-context'', ''gone'']
                      ?w)) \<noteq> 0"
    by code_simp
  have acc: "the_state_file (disk ?w) \<noteq> Inaccessible"
    by code_simp
  have h5: "py_strip (stderr \<lparr>returncode = 1, stdout = [], stderr = ''boom'' @ [CHR 0x0A]\<rparr>) \<noteq> []"
    by code_simp
  have s5: "py_strip (stderr \<lparr>returncode = 1, stdout = [], stderr = ''boom'' @ [CHR 0x0A]\<rparr>) = ''boom''"
    by code_simp
  have h6: "stderr \<lparr>returncode = 1, stdout = [], stderr = ''no such context''\<rparr> \<noteq> [] \<and>
            \<not> py_isspace (hd (stderr \<lparr>returncode = 1, stdout = [], stderr = ''no such context''\<rparr>)) \<and>
            \<not> py_isspace (last (stderr \<lparr>returncode = 1, stdout = [], stderr = ''no such context''\<rparr>))"
    by code_simp
  note r1 = T [THEN conjunct1, rule_format, OF t h1]
  note r2 = T [THEN conjunct2, THEN conjunct1, rule_format, OF last h2]
  note r3 = T [THEN conjunct2, THEN conjunct2, THEN conjunct1, rule_format, OF h3]
  note r4 = T [THEN conjunct2, THEN conjunct2, THEN conjunct2, THEN conjunct1, rule_format,
               OF acc h4]
  note r5 = T [THEN conjunct2, THEN conjunct2, THEN conjunct2, THEN conjunct2, THEN conjunct2,
               THEN conjunct1, rule_format, OF h5]
  note r6 = T [THEN conjunct2, THEN conjunct2, THEN conjunct2, THEN conjunct2, THEN conjunct2,
               THEN conjunct2, rule_format, OF h6]
  have hidden: "the_state_file (disk (sim_world example_tool_state (disk_of Inaccessible Absent)))
                  = Inaccessible"
    by (simp add: sim_world_def disk_of_def the_state_file_def)
  note r7 = failed_tool_call_reported_state_untouched
              [where tool = sim_kubectl and name = "''gone''"
                 and w = "sim_world example_tool_state (disk_of Inaccessible Absent)",
               THEN conjunct2, THEN conjunct2, THEN conjunct2, THEN conjunct2, THEN conjunct1,
               rule_format, OF hidden]
  have e5: "error_message \<lparr>returncode = 1, stdout = [], stderr = ''boom'' @ [CHR 0x0A]\<rparr> = ''boom''"
    using r5 s5 by simp
  have e6: "error_message \<lparr>returncode = 1, stdout = [], stderr = ''no such context''\<rparr>
              = ''no such context''"
    using r6 by simp
  show ?thesis
    using t h1 last h2 h3 h4 h5 e5 e6 acc
    by (simp add: r1 r2 r3 r4 r7 m1 d pe)
qed

text \<open>Rename and delete after a successful tool call.\<close>

lemma rename_raises:
  assumes "fst (rename_context tool old new w) = Inr u"
    and "load_state (disk w) = Inl e"
  shows "rename_context_command tool old new w = (Inl e, snd (rename_context tool old new w))"
proof -
  have d: "disk (snd (rename_context tool old new w)) = disk w"
    by (simp add: adapter_snd run_kubectl_frame)
  obtain w1 where rc: "rename_context tool old new w = (Inr u, w1)"
    using assms(1) by (cases "rename_context tool old new w") auto
  from d have "disk w1 = disk w"
    by (simp add: rc)
  then show ?thesis
    using assms(2) by (simp add: rename_context_command_def rc)
qed

lemma rename_succeeded:
  assumes "fst (rename_context tool old new w) = Inr u"
    and "load_state (disk w) = Inr st"
  shows "rename_context_command tool old new w
           = (Inr 0, if map_of st ''last_context'' = Some old
                     then (snd (rename_context tool old new w))
                            \<lparr>disk := save_state (disk w) (AList.update ''last_context'' new st)\<rparr>
                     else snd (rename_context tool old new w))"
proof -
  have d: "disk (snd (rename_context tool old new w)) = disk w"
    by (simp add: adapter_snd run_kubectl_frame)
  obtain w1 where rc: "rename_context tool old new w = (Inr u, w1)"
    using assms(1) by (cases "rename_context tool old new w") auto
  from d have "disk w1 = disk w"
    by (simp add: rc)
  then show ?thesis
    using assms(2) by (simp add: rename_context_command_def rc Let_def)
qed

lemma delete_succeeded:
  assumes "fst (delete_context tool name w) = Inr u"
    and "load_state (disk w) = Inr st"
  shows "delete_context_command tool name w
           = (Inr 0, if map_of st ''last_context'' = Some name
                     then (snd (delete_context tool name w))
                            \<lparr>disk := save_state (disk w) (AList.delete ''last_context'' st)\<rparr>
                     else snd (delete_context tool name w))"
proof -
  have d: "disk (snd (delete_context tool name w)) = disk w"
    by (simp add: adapter_snd run_kubectl_frame)
  obtain w1 where rc: "delete_context tool name w = (Inr u, w1)"
    using assms(1) by (cases "delete_context tool name w") auto
  from d have "disk w1 = disk w"
    by (simp add: rc)
  then show ?thesis
    using assms(2) by (simp add: delete_context_command_def rc Let_def)
qed

lemma binding_after_save_update:
  "load_state fs = Inr st \<Longrightarrow>
   state_binding (save_state fs (AList.update k v st)) k' = Inr (((map_of st)(k \<mapsto> v)) k')"
  by (simp add: binding_after_save distinct_update load_state_keys_distinct update_conv')

lemma binding_after_save_delete:
  "load_state fs = Inr st \<Longrightarrow>
   state_binding (save_state fs (AList.delete k st)) k' = Inr (((map_of st)(k := None)) k')"
  by (simp add: binding_after_save distinct_delete load_state_keys_distinct delete_conv')

text \<open>
  Claim C6. After a rename whose tool call exits with 0: if the persisted
  \<^verbatim>\<open>last_context\<close> was \<open>old\<close>, the state is rewritten once and \<^verbatim>\<open>last_context\<close> is
  \<open>new\<close>; for any other value, or none, the file system is left as it was, with no
  write. The command returns 0, unless loading the state raises, which leaves the file
  system as it was too.
\<close>

theorem rename_updates_last_context:
  assumes "returncode (fst (run_kubectl tool [''config'', ''rename-context'', old, new] w)) = 0"
  shows "(the_state_file (disk w) \<noteq> Inaccessible \<longrightarrow>
            fst (rename_context_command tool old new w) = Inr 0) \<and>
         (get_last_context (disk w) = Inr (Some old) \<longrightarrow>
            fst (rename_context_command tool old new w) = Inr 0 \<and>
            get_last_context (disk (snd (rename_context_command tool old new w))) = Inr (Some new) \<and>
            writes (disk (snd (rename_context_command tool old new w))) = Suc (writes (disk w))) \<and>
         (get_last_context (disk w) \<noteq> Inr (Some old) \<longrightarrow>
            disk (snd (rename_context_command tool old new w)) = disk w)"
proof -
  have ok: "fst (rename_context tool old new w) = Inr ()"
    using assms by (simp add: fst_rename_context Let_def)
  show ?thesis
  proof (cases "load_state (disk w)")
    case (Inl e)
    then have "the_state_file (disk w) = Inaccessible"
      by (simp add: load_state_raises_iff)
    with rename_raises [OF ok Inl] Inl show ?thesis
      by (simp add: get_last_context_def adapter_snd run_kubectl_frame)
  next
    case (Inr st)
    have before: "get_last_context (disk w) = Inr (map_of st ''last_context'')"
      by (simp add: get_last_context_def Inr)
    have after: "get_last_context (save_state (disk w) (AList.update ''last_context'' new st))
                   = Inr (Some new)"
      by (simp add: get_last_is_binding binding_after_save_update [OF Inr])
    have acc: "the_state_file (disk w) \<noteq> Inaccessible"
      using Inr load_state_inaccessible [of "disk w"] by auto
    from rename_succeeded [OF ok Inr] show ?thesis
      by (simp add: before after acc writes_save adapter_snd run_kubectl_frame)
  qed
qed

theorem rename_updates_last_context_witness:
  "returncode (fst (run_kubectl sim_kubectl [''config'', ''rename-context'', ''b'', ''c'']
                      (example_world ''b''))) = 0 \<and>
   the_state_file (disk (example_world ''b'')) \<noteq> Inaccessible \<and>
   get_last_context (disk (example_world ''b'')) = Inr (Some ''b'') \<and>
   fst (rename_context_command sim_kubectl ''b'' ''c'' (example_world ''b'')) = Inr 0 \<and>
   get_last_context (disk (snd (rename_context_command sim_kubectl ''b'' ''c'' (example_world ''b''))))
     = Inr (Some ''c'') \<and>
   returncode (fst (run_kubectl sim_kubectl [''config'', ''rename-context'', ''a'', ''c'']
                      (example_world ''b''))) = 0 \<and>
   get_last_context (disk (example_world ''b'')) \<noteq> Inr (Some ''a'') \<and>
   disk (snd (rename_context_command sim_kubectl ''a'' ''c'' (example_world ''b'')))
     = example_disk ''b''"
proof -
  let ?w = "example_world ''b''"
  have d: "disk ?w = example_disk ''b''"
    by (simp add: example_world_def sim_world_def)
  have h1: "returncode (fst (run_kubectl sim_kubectl [''config'', ''rename-context'', ''b'', ''c''] ?w)) = 0"
    by code_simp
  have h2: "returncode (fst (run_kubectl sim_kubectl [''config'', ''rename-context'', ''a'', ''c''] ?w)) = 0"
    by code_simp
  have acc: "the_state_file (disk ?w) \<noteq> Inaccessible"
    by code_simp
  have last: "get_last_context (disk ?w) = Inr (Some ''b'')"
    by code_simp
  have other: "get_last_context (disk ?w) \<noteq> Inr (Some ''a'')"
    by (simp add: last)
  from rename_updates_last_context [OF h1, THEN conjunct1, rule_format, OF acc]
    rename_updates_last_context [OF h1, THEN conjunct2, THEN conjunct1, rule_format, OF last]
    rename_updates_last_context [OF h2, THEN conjunct2, THEN conjunct2, rule_format, OF other]
    h1 h2 last d acc
  show ?thesis by simp
qed

text \<open>
  Claim C7. After a delete whose tool call exits with 0: if the persisted
  \<^verbatim>\<open>last_context\<close> was the deleted name, the command returns 0 and the state is
  rewritten once without a \<^verbatim>\<open>last_context\<close> key; for any other value, or none, the
  file system is left as it was. The command returns 0, unless loading the state
  raises, which happens before the tool is run.
\<close>

theorem delete_removes_last_context:
  assumes "returncode (fst (run_kubectl tool [''config'', ''delete-context'', name] w)) = 0"
  shows "(the_state_file (disk w) \<noteq> Inaccessible \<longrightarrow>
            fst (delete_context_command tool name w) = Inr 0) \<and>
         (get_last_context (disk w) = Inr (Some name) \<longrightarrow>
            fst (delete_context_command tool name w) = Inr 0 \<and>
            get_last_context (disk (snd (delete_context_command tool name w))) = Inr None \<and>
            (\<forall>st. load_state (disk (snd (delete_context_command tool name w))) = Inr st \<longrightarrow>
                  ''last_context'' \<notin> fst ` set st) \<and>
            writes (disk (snd (delete_context_command tool name w))) = Suc (writes (disk w))) \<and>
         (get_last_context (disk w) \<noteq> Inr (Some name) \<longrightarrow>
            disk (snd (delete_context_command tool name w)) = disk w)"
proof -
  have ok: "fst (delete_context tool name w) = Inr ()"
    using assms by (simp add: fst_delete_context Let_def)
  show ?thesis
  proof (cases "load_state (disk w)")
    case (Inl e)
    then have "the_state_file (disk w) = Inaccessible"
      by (simp add: load_state_raises_iff)
    with delete_raises [OF Inl] Inl show ?thesis
      by (simp add: get_last_context_def)
  next
    case (Inr st)
    note eq = delete_succeeded [OF ok Inr]
    have gone: "state_binding (save_state (disk w) (AList.delete ''last_context'' st)) ''last_context''
                  = Inr None"
      by (simp add: binding_after_save_delete [OF Inr])
    have absent: "''last_context'' \<notin> fst ` set st'"
      if "load_state (save_state (disk w) (AList.delete ''last_context'' st)) = Inr st'" for st'
      using gone that by (simp add: state_binding_def map_of_eq_None_iff)
    have before: "get_last_context (disk w) = Inr (map_of st ''last_context'')"
      by (simp add: get_last_context_def Inr)
    have after: "get_last_context (save_state (disk w) (AList.delete ''last_context'' st)) = Inr None"
      using gone by (simp add: get_last_is_binding)
    have acc: "the_state_file (disk w) \<noteq> Inaccessible"
      using Inr load_state_inaccessible [of "disk w"] by auto
    from eq absent show ?thesis
      by (simp add: before after acc writes_save adapter_snd run_kubectl_frame)
  qed
qed

theorem delete_removes_last_context_witness:
  "returncode (fst (run_kubectl sim_kubectl [''config'', ''delete-context'', ''b'']
                      (example_world ''b''))) = 0 \<and>
   the_state_file (disk (example_world ''b'')) \<noteq> Inaccessible \<and>
   get_last_context (disk (example_world ''b'')) = Inr (Some ''b'') \<and>
   fst (delete_context_command sim_kubectl ''b'' (example_world ''b'')) = Inr 0 \<and>
   get_last_context (disk (snd (delete_context_command sim_kubectl ''b'' (example_world ''b''))))
     = Inr None \<and>
   load_state (disk (snd (delete_context_command sim_kubectl ''b'' (example_world ''b''))))
     = Inr [(''theme'', ''dark'')] \<and>
   returncode (fst (run_kubectl sim_kubectl [''config'', ''delete-context'', ''a'']
                      (example_world ''b''))) = 0 \<and>
   get_last_context (disk (example_world ''b'')) \<noteq> Inr (Some ''a'') \<and>
   disk (snd (delete_context_command sim_kubectl ''a'' (example_world ''b''))) = example_disk ''b''"
proof -
  let ?w = "example_world ''b''"
  have d: "disk ?w = example_disk ''b''"
    by (simp add: example_world_def sim_world_def)
  have h1: "returncode (fst (run_kubectl sim_kubectl [''config'', ''delete-context'', ''b''] ?w)) = 0"
    by code_simp
  have h2: "returncode (fst (run_kubectl sim_kubectl [''config'', ''delete-context'', ''a''] ?w)) = 0"
    by code_simp
  have acc: "the_state_file (disk ?w) \<noteq> Inaccessible"
    by code_simp
  have last: "get_last_context (disk ?w) = Inr (Some ''b'')"
    by code_simp
  have other: "get_last_context (disk ?w) \<noteq> Inr (Some ''a'')"
    by (simp add: last)
  have st: "load_state (disk (snd (delete_context_command sim_kubectl ''b'' ?w)))
              = Inr [(''theme'', ''dark'')]"
    by code_simp
  from delete_removes_last_context [OF h1, THEN conjunct2, THEN conjunct1, rule_format, OF last]
    delete_removes_last_context [OF h2, THEN conjunct2, THEN conjunct2, rule_format, OF other]
    h1 h2 last d st acc
  show ?thesis by simp
qed

text \<open>Where the file system of a command can end up.\<close>

lemma switch_disk_cases:
  "disk (snd (switch_context_command tool target w)) = disk w \<or>
   record_last_context (disk w) (fst (get_current_context tool w))
     = Inr (disk (snd (switch_context_command tool target w)))"
proof (cases "target = ''-''")
  case True
  show ?thesis
  proof (cases "get_last_context (disk w)")
    case (Inl e)
    from toggle_raises [OF Inl] True show ?thesis
      by (simp add: adapter_snd run_kubectl_frame)
  next
    case (Inr last_context)
    show ?thesis
    proof (cases last_context)
      case None
      with Inr have "get_last_context (disk w) = Inr None" by simp
      from toggle_nothing [OF this] True show ?thesis
        by (simp add: print_frame adapter_snd run_kubectl_frame)
    next
      case (Some l)
      with Inr have last: "get_last_context (disk w) = Inr (Some l)" by simp
      show ?thesis
      proof (cases "fst (use_context tool l (snd (get_current_context tool w)))")
        case (Inl error)
        from toggle_failed [OF last Inl] True show ?thesis
          by (simp add: print_frame adapter_snd run_kubectl_frame)
      next
        case (Inr u)
        from toggle_succeeded [OF last Inr] True
          record_and_show_disk [of tool "fst (get_current_context tool w)"
            "snd (use_context tool l (snd (get_current_context tool w)))"]
        show ?thesis
          by (simp add: disk_after_use_context)
      qed
    qed
  qed
next
  case False
  show ?thesis
  proof (cases "fst (use_context tool target (snd (get_current_context tool w)))")
    case (Inl error)
    from switch_normal_failed [OF False Inl] show ?thesis
      by (simp add: print_frame adapter_snd run_kubectl_frame)
  next
    case (Inr u)
    from switch_normal_succeeded [OF False Inr]
      record_and_show_disk [of tool "fst (get_current_context tool w)"
        "snd (use_context tool target (snd (get_current_context tool w)))"]
    show ?thesis
      by (simp add: disk_after_use_context)
  qed
qed

lemma record_last_context_frame:
  assumes "k \<noteq> ''last_context''" and "record_last_context fs current = Inr fs'"
  shows "state_binding fs' k = state_binding fs k"
proof (cases current)
  case None
  with assms(2) show ?thesis by (simp add: record_last_context_none)
next
  case (Some c)
  with assms(2) have "record_last_context fs (Some c) = Inr fs'" by simp
  from binding_after_record [OF this] assms(1) show ?thesis by simp
qed

lemma rename_disk_cases:
  "disk (snd (rename_context_command tool old new w)) = disk w \<or>
   (\<exists>st. load_state (disk w) = Inr st \<and>
         disk (snd (rename_context_command tool old new w))
           = save_state (disk w) (AList.update ''last_context'' new st))"
proof (cases "fst (rename_context tool old new w)")
  case (Inl error)
  from rename_failed [OF Inl] show ?thesis
    by (simp add: print_frame adapter_snd run_kubectl_frame)
next
  case ok: (Inr u)
  show ?thesis
  proof (cases "load_state (disk w)")
    case (Inl e)
    from rename_raises [OF ok Inl] show ?thesis
      by (simp add: adapter_snd run_kubectl_frame)
  next
    case (Inr st)
    from rename_succeeded [OF ok Inr] Inr show ?thesis
      by (simp add: adapter_snd run_kubectl_frame)
  qed
qed

lemma delete_disk_cases:
  "disk (snd (delete_context_command tool name w)) = disk w \<or>
   (\<exists>st. load_state (disk w) = Inr st \<and>
         disk (snd (delete_context_command tool name w))
           = save_state (disk w) (AList.delete ''last_context'' st))"
proof (cases "load_state (disk w)")
  case (Inl e)
  from delete_raises [OF Inl] show ?thesis by simp
next
  case (Inr st)
  show ?thesis
  proof (cases "fst (delete_context tool name w)")
    case (Inl error)
    from delete_failed [OF Inr Inl] show ?thesis
      by (simp add: print_frame adapter_snd run_kubectl_frame)
  next
    case ok: (Inr u)
    from delete_succeeded [OF ok Inr] Inr show ?thesis
      by (simp add: adapter_snd run_kubectl_frame)
  qed
qed

text \<open>
  Claim C10. Frame property: recording a last context, and the switch, toggle, rename
  and delete commands, whatever the tool answers and however the command ends, change
  at most the \<^verbatim>\<open>last_context\<close> key of the persisted state: loading the state after
  the operation gives for every other key what loading it before gave.
\<close>

theorem only_last_context_changes:
  assumes "k \<noteq> ''last_context''"
  shows "(\<forall>fs'. record_last_context fs current = Inr fs' \<longrightarrow>
            state_binding fs' k = state_binding fs k) \<and>
         (\<forall>e. record_last_context fs current = Inl e \<longrightarrow> load_state fs = Inl e) \<and>
         state_binding (disk (snd (switch_context_command tool target w))) k
           = state_binding (disk w) k \<and>
         state_binding (disk (snd (rename_context_command tool old new w))) k
           = state_binding (disk w) k \<and>
         state_binding (disk (snd (delete_context_command tool name w))) k
           = state_binding (disk w) k"
proof -
  have recorded: "\<forall>fs'. record_last_context fs current = Inr fs' \<longrightarrow>
            state_binding fs' k = state_binding fs k"
    using record_last_context_frame [OF assms] by blast
  have raised: "\<forall>e. record_last_context fs current = Inl e \<longrightarrow> load_state fs = Inl e"
    by (cases current; cases "load_state fs")
       (auto simp: record_last_context_none record_last_context_some record_last_context_raises)
  have switch: "state_binding (disk (snd (switch_context_command tool target w))) k
                  = state_binding (disk w) k"
    using switch_disk_cases [of tool target w] record_last_context_frame [OF assms]
    by auto
  have rename: "state_binding (disk (snd (rename_context_command tool old new w))) k
                  = state_binding (disk w) k"
    using rename_disk_cases [of tool old new w] assms
    by (auto simp: binding_after_save_update) (simp add: state_binding_def)
  have delete: "state_binding (disk (snd (delete_context_command tool name w))) k
                  = state_binding (disk w) k"
    using delete_disk_cases [of tool name w] assms
    by (auto simp: binding_after_save_delete) (simp add: state_binding_def)
  from recorded raised switch rename delete show ?thesis
    by simp
qed

theorem only_last_context_changes_witness:
  "''theme'' \<noteq> ''last_context'' \<and>
   state_binding (example_disk ''b'') ''theme'' = Inr (Some ''dark'') \<and>
   record_last_context (example_disk ''b'') (Some ''a'')
     = Inr (save_state (example_disk ''b'') [(''theme'', ''dark''), (''last_context'', ''a'')]) \<and>
   state_binding (save_state (example_disk ''b'') [(''theme'', ''dark''), (''last_context'', ''a'')])
     ''theme'' = Inr (Some ''dark'') \<and>
   state_binding (disk (snd (switch_context_command sim_kubectl ''-'' (example_world ''b''))))
     ''theme'' = Inr (Some ''dark'') \<and>
   state_binding (disk (snd (rename_context_command sim_kubectl ''b'' ''c'' (example_world ''b''))))
     ''theme'' = Inr (Some ''dark'') \<and>
   state_binding (disk (snd (delete_context_command sim_kubectl ''b'' (example_world ''b''))))
     ''theme'' = Inr (Some ''dark'')"
proof -
  have k: "''theme'' \<noteq> ''last_context''" by simp
  have d: "disk (example_world ''b'') = example_disk ''b''"
    by (simp add: example_world_def sim_world_def)
  have v: "state_binding (example_disk ''b'') ''theme'' = Inr (Some ''dark'')"
    by code_simp
  have r: "record_last_context (example_disk ''b'') (Some ''a'')
     = Inr (save_state (example_disk ''b'') [(''theme'', ''dark''), (''last_context'', ''a'')])"
    by code_simp
  note T = only_last_context_changes [OF k, of "example_disk ''b''" "Some ''a''" sim_kubectl "''-''"
      "example_world ''b''" "''b''" "''c''" "''b''"]
  from T [THEN conjunct1, rule_format, OF r] T [THEN conjunct2, THEN conjunct2] k d v r
  show ?thesis by simp
qed





















text \<open>
  Claim C9, as stated, fails: \<^verbatim>\<open>save_state\<close> writes the state file in place with
  \<^verbatim>\<open>write_text\<close>, and between the opening of the file, which empties it, and the
  writing of the text a reader finds an empty state file, which is neither the old
  state nor the new one and loads as the empty mapping.
\<close>

theorem save_state_not_atomic_counterexample:
  "\<not> reader_sees_whole_file (example_disk ''a'') [(''theme'', ''dark''), (''last_context'', ''b'')] \<and>
   the_state_file (save_state_steps (example_disk ''a'')
                     [(''theme'', ''dark''), (''last_context'', ''b'')] ! 1) = Holds Junk \<and>
   load_state (example_disk ''a'') = Inr [(''theme'', ''dark''), (''last_context'', ''a'')] \<and>
   load_state (save_state_steps (example_disk ''a'')
                 [(''theme'', ''dark''), (''last_context'', ''b'')] ! 1) = Inr [] \<and>
   load_state (save_state (example_disk ''a'') [(''theme'', ''dark''), (''last_context'', ''b'')])
     = Inr [(''last_context'', ''b''), (''theme'', ''dark'')]"
  by code_simp

text \<open>
  Claim C9, amended. \<^verbatim>\<open>save_state\<close> creates the base directory if it is missing and
  leaves an existing one alone, then writes the state file in place, truncating it
  first and writing the text second, with no temporary file and no rename; the config
  file is not touched. The text written is the object of all items of the mapping,
  sorted by key, each value a JSON string; for a dict (distinct keys) loading it gives
  the same mapping back.
\<close>

theorem save_state_writes_sorted_in_place:
  "save_state_steps fs st
     = [ensure_base_dir fs, open_truncate (ensure_base_dir fs), save_state fs st] \<and>
   base_dir (ensure_base_dir fs) \<noteq> None \<and>
   (base_dir fs \<noteq> None \<longrightarrow> ensure_base_dir fs = fs) \<and>
   the_state_file (open_truncate (ensure_base_dir fs)) = Holds Junk \<and>
   base_dir (save_state fs st) \<noteq> None \<and>
   the_state_file (save_state fs st)
     = Holds (Denotes (JObj (map (\<lambda>kv. (fst kv, JStr (snd kv))) (sort_key fst st)))) \<and>
   sorted (map fst (sort_key fst st)) \<and>
   set (sort_key fst st) = set st \<and>
   length (sort_key fst st) = length st \<and>
   the_config_file (save_state fs st) = the_config_file fs \<and>
   writes (save_state fs st) = Suc (writes fs) \<and>
   (distinct (map fst st) \<longrightarrow>
      load_state (save_state fs st) = Inr (sort_key fst st) \<and>
      map_of (sort_key fst st) = map_of st)"
proof -
  have steps: "save_state_steps fs st
     = [ensure_base_dir fs, open_truncate (ensure_base_dir fs), save_state fs st]"
    by (simp add: save_state_def save_state_steps_def Let_def)
  have dir: "base_dir (ensure_base_dir fs) \<noteq> None"
    by (simp add: ensure_base_dir_def split: option.splits)
  have kept: "base_dir fs \<noteq> None \<longrightarrow> ensure_base_dir fs = fs"
    by (auto simp: ensure_base_dir_def)
  have truncated: "the_state_file (open_truncate (ensure_base_dir fs)) = Holds Junk"
    by (simp add: open_truncate_def ensure_base_dir_def the_state_file_def split: option.splits)
  have dir': "base_dir (save_state fs st) \<noteq> None"
    by (simp add: save_state_def save_state_steps_def Let_def ensure_base_dir_def
        open_truncate_def write_close_def split: option.splits)
  have written: "the_state_file (save_state fs st)
     = Holds (Denotes (JObj (map (\<lambda>kv. (fst kv, JStr (snd kv))) (sort_key fst st))))"
    by (simp add: the_state_file_save json_dumps_def)
  have in_order: "sorted (map fst (sort_key fst st))"
    by (rule sorted_sort_key)
  have all_items: "set (sort_key fst st) = set st" "length (sort_key fst st) = length st"
    by simp_all
  have roundtrip: "distinct (map fst st) \<longrightarrow>
      load_state (save_state fs st) = Inr (sort_key fst st) \<and>
      map_of (sort_key fst st) = map_of st"
    using load_save_sorted [of st fs] map_of_sort_key [of st] by blast
  show ?thesis
    by (intro conjI steps dir kept truncated dir' written in_order all_items
        the_config_file_save writes_save roundtrip)
qed

theorem save_state_writes_sorted_in_place_witness:
  "base_dir \<lparr>base_dir = None, writes = 0\<rparr> = None \<and>
   base_dir (save_state \<lparr>base_dir = None, writes = 0\<rparr> [(''theme'', ''dark''), (''last_context'', ''b'')])
     \<noteq> None \<and>
   base_dir (example_disk ''a'') \<noteq> None \<and>
   ensure_base_dir (example_disk ''a'') = example_disk ''a'' \<and>
   distinct (map fst [(''theme'', ''dark''), (''last_context'', ''b'')]) \<and>
   load_state (save_state (example_disk ''a'') [(''theme'', ''dark''), (''last_context'', ''b'')])
     = Inr [(''last_context'', ''b''), (''theme'', ''dark'')]"
proof -
  let ?st = "[(''theme'', ''dark''), (''last_context'', ''b'')]"
  have dir: "base_dir (example_disk ''a'') \<noteq> None"
    by (simp add: example_disk_def disk_of_def)
  have keys: "distinct (map fst ?st)"
    by simp
  have srt: "sort_key fst ?st = [(''last_context'', ''b''), (''theme'', ''dark'')]"
    by code_simp
  note T = save_state_writes_sorted_in_place
  note t1 = T [of "\<lparr>base_dir = None, writes = 0\<rparr>" ?st, THEN conjunct2, THEN conjunct2,
               THEN conjunct2, THEN conjunct2, THEN conjunct1]
  note t2 = T [of "example_disk ''a''" ?st, THEN conjunct2, THEN conjunct2, THEN conjunct1,
               rule_format, OF dir]
  note t3 = T [of "example_disk ''a''" ?st, THEN conjunct2, THEN conjunct2, THEN conjunct2,
               THEN conjunct2, THEN conjunct2, THEN conjunct2, THEN conjunct2, THEN conjunct2,
               THEN conjunct2, THEN conjunct2, THEN conjunct2, rule_format, OF keys,
               THEN conjunct1]
  from t1 t2 t3 dir keys srt show ?thesis
    by simp
qed

end
